theory Spec2Isabelle
  imports Complex_Main
begin

section \<open>Numbers and strings of the source\<close>

text \<open>
  The program is Python. Its \<open>float\<close> values (confidence scores, similarity ratios, decay
  contributions) are embedded as \<^typ>\<open>real\<close>: a decimal literal of the source such as
  \<open>0.15\<close> is the real number \<open>15/100\<close>, \<open>+\<close>, \<open>-\<close>, \<open>*\<close> are exact, and comparisons
  are the order of the reals. Python's \<open>int\<close> is \<^typ>\<open>int\<close>, \<open>str\<close> is \<^typ>\<open>string\<close>,
  \<open>None\<close> is \<^const>\<open>None\<close>.

  \<open>round(x, 2)\<close> rounds to the nearest multiple of \<open>0.01\<close>, a tie going to the even
  neighbour.

  Writing to the log and sleeping between retries have no counterpart here, except for the
  two log lines of \<open>select_persona\<close>.
\<close>

definition round_half_even :: "real \<Rightarrow> int" where
  "round_half_even y =
     (let f = \<lfloor>y\<rfloor>; d = y - of_int f
      in if d < 1/2 then f else if 1/2 < d then f + 1 else if even f then f else f + 1)"

definition round2 :: "real \<Rightarrow> real" where
  "round2 x = of_int (round_half_even (x * 100)) / 100"

text \<open>The values \<open>round(_, 2)\<close> can return: the two-decimal numbers.\<close>

definition two_decimals :: "real \<Rightarrow> bool" where
  "two_decimals x = (of_int \<lfloor>x * 100\<rfloor> = x * 100)"

text \<open>\<open>s.startswith(w)\<close> and the substring test \<open>w in s\<close>.\<close>

definition startswith :: "string \<Rightarrow> string \<Rightarrow> bool" where
  "startswith s w = (take (length w) s = w)"

fun str_in :: "string \<Rightarrow> string \<Rightarrow> bool" where
  "str_in w [] = (w = [])"
| "str_in w (c # cs) = (startswith (c # cs) w \<or> str_in w cs)"

text \<open>\<open>any(w in s for w in ws)\<close>.\<close>

definition any_in :: "string list \<Rightarrow> string \<Rightarrow> bool" where
  "any_in ws s = list_ex (\<lambda>w. str_in w s) ws"

section \<open>detection.py: the confidence tracker\<close>

text \<open>
  The dictionaries returned by \<open>detect_repetition\<close> and \<open>detect_escalation\<close> always carry
  all their keys; they are records here. \<open>update_confidence\<close> receives them as optional
  arguments (\<open>None\<close> by default).
\<close>

record repetition_result =
  is_repetitive :: bool
  similarity :: real
  repeated_count :: int

record escalation_result =
  is_escalating :: bool
  escalation_type :: "string option"
  urgency_count :: int
  threat_count :: int

text \<open>\<open>keyword_count = len([f for f in flags if f.startswith("keyword:")])\<close>\<close>

definition keyword_count :: "string list \<Rightarrow> nat" where
  "keyword_count flags = length (filter (\<lambda>f. startswith f ''keyword:'') flags)"

text \<open>
  The local variable \<open>decay\<close> of \<open>update_confidence\<close>, as it stands when the function
  reaches its last statement: the five contributions are added in the order of the source.
\<close>

definition decay :: "string list \<Rightarrow> repetition_result option \<Rightarrow> escalation_result option \<Rightarrow> real" where
  "decay flags repetition_data escalation_data =
     (let d0 = (0::real);
          d1 = (if ''urgency'' \<in> set flags then d0 + 0.1 else d0);
          d2 = (if keyword_count flags \<ge> 3 then d1 + 0.15
                else if keyword_count flags \<ge> 2 then d1 + 0.08 else d1);
          d3 = (if ''threat'' \<in> set flags then d2 + 0.2 else d2);
          d4 = (case repetition_data of
                  None \<Rightarrow> d3
                | Some r \<Rightarrow>
                    if is_repetitive r
                    then (let d = d3 + 0.1 * similarity r
                          in if repeated_count r \<ge> 2 then d + 0.1 else d)
                    else d3);
          d5 = (case escalation_data of
                  None \<Rightarrow> d4
                | Some e \<Rightarrow>
                    if is_escalating e
                    then (if escalation_type e = Some ''final_warning'' then d4 + 0.15
                          else if escalation_type e = Some ''repeated_pressure'' then d4 + 0.12
                          else d4)
                    else d4)
      in d5)"

definition update_confidence ::
  "real \<Rightarrow> string list \<Rightarrow> repetition_result option \<Rightarrow> escalation_result option \<Rightarrow> real" where
  "update_confidence old_confidence flags repetition_data escalation_data =
     round2 (max 0 (old_confidence - decay flags repetition_data escalation_data))"

section \<open>agent.py: mode derivation\<close>

datatype error = ValueError string | ValidationError string

definition decide_mode :: "real \<Rightarrow> error + string" where
  "decide_mode confidence =
     (if \<not> (0 \<le> confidence \<and> confidence \<le> 1)
      then Inl (ValueError ''confidence must be between 0 and 1'')
      else if confidence < 0.25 then Inr ''EXIT''
      else if confidence < 0.5 then Inr ''DEFLECTION''
      else Inr ''NORMAL'')"

section \<open>What the program takes from outside\<close>

text \<open>
  Library and network calls are not code of this repository. Each is a field of the
  environment a request is processed in:
  \<^item> \<open>str_lower\<close>: \<open>str.lower\<close>;
  \<^item> \<open>seq_ratio a b\<close>: \<open>difflib.SequenceMatcher(None, a, b).ratio()\<close>;
  \<^item> \<open>str_float\<close>: the text an f-string gives a float;
  \<^item> \<open>upi_findall\<close>, \<open>phone_findall\<close>, \<open>url_findall\<close>: \<open>findall\<close> of the three compiled
    regular expressions of extraction.py (none has a capturing group, so each returns the
    matched substrings);
  \<^item> \<open>generate_content k p\<close>: the \<open>k\<close>-th call of the text-generation service on prompt
    \<open>p\<close> within one request: \<open>Inr\<close> the stripped response text, or \<open>Inl\<close> the message of
    the exception it raised;
  \<^item> \<open>requests_post k p\<close>: whether the \<open>k\<close>-th HTTP post of payload \<open>p\<close> succeeded
    (no exception, also from \<open>raise_for_status\<close>);
  \<^item> \<open>utcnow k\<close>: the \<open>k\<close>-th reading of the clock within one request.
\<close>

datatype PersonaType = CONFUSED_USER | NERVOUS_ELDER | OVER_POLITE | TECH_SAVVY

record Persona =
  name :: string
  persona_type :: PersonaType
  description :: string
  traits :: "string list"
  response_style :: string
  min_confidence :: real
  max_confidence :: real

text \<open>
  The prompt \<open>build_persona_prompt\<close> formats is a fixed text around four values; the
  embedding keeps the four values.
\<close>

record prompt =
  prompt_persona :: Persona
  prompt_topic :: string
  prompt_mode :: string
  prompt_scammer_message :: string

record ExtractedIntelligence =
  upiIds :: "string list"
  phoneNumbers :: "string list"
  phishingLinks :: "string list"
  suspiciousKeywords :: "string list"

record callback_payload =
  cb_sessionId :: string
  cb_scamDetected :: bool
  cb_totalMessagesExchanged :: int
  cb_extractedIntelligence :: ExtractedIntelligence
  cb_agentNotes :: string
  cb_finalConfidence :: real

record env =
  str_lower :: "string \<Rightarrow> string"
  seq_ratio :: "string \<Rightarrow> string \<Rightarrow> real"
  str_float :: "real \<Rightarrow> string"
  upi_findall :: "string \<Rightarrow> string list"
  phone_findall :: "string \<Rightarrow> string list"
  url_findall :: "string \<Rightarrow> string list"
  generate_content :: "nat \<Rightarrow> prompt \<Rightarrow> string + string"
  requests_post :: "nat \<Rightarrow> callback_payload \<Rightarrow> bool"
  utcnow :: "nat \<Rightarrow> nat"

section \<open>config.py\<close>

record Settings =
  scam_confidence_threshold :: real
  exit_confidence_threshold :: real
  callback_retry_attempts :: int

definition default_settings :: Settings where
  "default_settings =
     \<lparr>scam_confidence_threshold = 0.4, exit_confidence_threshold = 0.4,
      callback_retry_attempts = 3\<rparr>"

section \<open>detection.py: the scam scorer\<close>

definition SCAM_KEYWORDS :: "string list" where
  "SCAM_KEYWORDS =
     [''blocked'', ''suspended'', ''verify'', ''urgent'', ''immediately'',
      ''account'', ''upi'', ''otp'', ''kyc'', ''refund'', ''prize'',
      ''final'', ''warning'', ''expire'', ''deactivate'', ''confirm'']"

definition URGENCY_WORDS :: "string list" where
  "URGENCY_WORDS =
     [''now'', ''today'', ''immediately'', ''within'', ''asap'', ''hurry'', ''quick'', ''fast'']"

definition THREAT_WORDS :: "string list" where
  "THREAT_WORDS =
     [''blocked'', ''suspended'', ''legal'', ''terminated'', ''action'', ''penalty'', ''fine'']"

definition ESCALATION_WORDS :: "string list" where
  "ESCALATION_WORDS = [''final'', ''last'', ''ultimate'', ''warning'', ''chance'']"

definition calculate_similarity :: "env \<Rightarrow> string \<Rightarrow> string \<Rightarrow> real" where
  "calculate_similarity env text1 text2 = seq_ratio env (str_lower env text1) (str_lower env text2)"

text \<open>\<open>xs[-n:]\<close> for \<open>n > 0\<close>: the last \<open>n\<close> elements, all of \<open>xs\<close> when it is shorter.\<close>

definition last_n :: "nat \<Rightarrow> 'a list \<Rightarrow> 'a list" where
  "last_n n xs = drop (length xs - n) xs"

text \<open>
  The loop of \<open>detect_repetition\<close> carries \<open>max_similarity\<close> and \<open>repeated_count\<close> through the
  recent messages, starting from \<open>(0.0, 0)\<close>.
\<close>

fun repetition_loop :: "env \<Rightarrow> string \<Rightarrow> real \<Rightarrow> string list \<Rightarrow> real \<times> int \<Rightarrow> real \<times> int" where
  "repetition_loop env message threshold [] acc = acc"
| "repetition_loop env message threshold (prev_message # rest) (max_sim, rep_count) =
     (let sim = calculate_similarity env message prev_message
      in repetition_loop env message threshold rest
           (max max_sim sim, if sim \<ge> threshold then rep_count + 1 else rep_count))"

definition detect_repetition :: "env \<Rightarrow> string \<Rightarrow> string list \<Rightarrow> real \<Rightarrow> repetition_result" where
  "detect_repetition env message message_history threshold =
     (if message_history = []
      then \<lparr>is_repetitive = False, similarity = 0, repeated_count = 0\<rparr>
      else
        (let recent_messages = last_n 5 message_history;
             (max_sim, rep_count) =
                repetition_loop env message threshold recent_messages (0, 0)
         in \<lparr>is_repetitive = (max_sim \<ge> threshold),
             similarity = round2 max_sim,
             repeated_count = rep_count\<rparr>))"

text \<open>\<open>d.get(k, 0)\<close> on the behaviour-pattern dictionary.\<close>

definition get_count :: "(string \<rightharpoonup> int) \<Rightarrow> string \<Rightarrow> int" where
  "get_count d k = (case d k of None \<Rightarrow> 0 | Some v \<Rightarrow> v)"

definition detect_escalation :: "env \<Rightarrow> string \<Rightarrow> (string \<rightharpoonup> int) \<Rightarrow> escalation_result" where
  "detect_escalation env message behavior_patterns =
     (let message_lower = str_lower env message;
          has_escalation_words = any_in ESCALATION_WORDS message_lower;
          urgency_cnt = get_count behavior_patterns ''urgency'';
          threat_cnt = get_count behavior_patterns ''threat'';
          (detected1, type1) =
             (if urgency_cnt \<ge> 2 \<or> threat_cnt \<ge> 2 then (True, Some ''repeated_pressure'')
              else (False, None));
          (detected2, type2) =
             (if has_escalation_words then (True, Some ''final_warning'') else (detected1, type1))
      in \<lparr>is_escalating = detected2, escalation_type = type2,
          urgency_count = urgency_cnt, threat_count = threat_cnt\<rparr>)"

record detection_result =
  is_scam :: bool
  det_confidence :: real
  flags :: "string list"
  repetition :: repetition_result
  escalation :: escalation_result

text \<open>\<open>f"escalation:{t}"\<close> prints \<open>None\<close> as the text \<open>None\<close>.\<close>

definition str_opt :: "string option \<Rightarrow> string" where
  "str_opt t = (case t of None \<Rightarrow> ''None'' | Some s \<Rightarrow> s)"

definition detect_scam ::
  "Settings \<Rightarrow> env \<Rightarrow> string \<Rightarrow> string list \<Rightarrow> (string \<rightharpoonup> int) \<Rightarrow> detection_result" where
  "detect_scam settings env message message_history behavior_patterns =
     (let message_lower = str_lower env message;
          flags1 = map (\<lambda>keyword. ''keyword:'' @ keyword)
                     (filter (\<lambda>keyword. str_in keyword message_lower) SCAM_KEYWORDS);
          flags2 = (if any_in URGENCY_WORDS message_lower then flags1 @ [''urgency''] else flags1);
          flags3 = (if any_in THREAT_WORDS message_lower then flags2 @ [''threat''] else flags2);
          repetition_result = detect_repetition env message message_history 0.7;
          flags4 = (if is_repetitive repetition_result
                    then flags3 @ [''repetition:'' @ str_float env (similarity repetition_result)]
                    else flags3);
          escalation_result = detect_escalation env message behavior_patterns;
          flags5 = (if is_escalating escalation_result
                    then flags4 @ [''escalation:'' @ str_opt (escalation_type escalation_result)]
                    else flags4);
          conf = min 1 (real (length flags5) * 0.2)
      in \<lparr>is_scam = (conf \<ge> scam_confidence_threshold settings),
          det_confidence = round2 conf,
          flags = flags5,
          repetition = repetition_result,
          escalation = escalation_result\<rparr>)"

section \<open>persona_manager.py\<close>

fun persona_value :: "PersonaType \<Rightarrow> string" where
  "persona_value CONFUSED_USER = ''confused_user''"
| "persona_value NERVOUS_ELDER = ''nervous_elder''"
| "persona_value OVER_POLITE = ''over_polite''"
| "persona_value TECH_SAVVY = ''tech_savvy''"

text \<open>
  \<open>PERSONAS\<close> is a dictionary literal; iterating over \<open>items()\<close> visits its entries in the
  order they are written, so it is an association list in that order.
\<close>

definition PERSONAS :: "(PersonaType \<times> Persona) list" where
  "PERSONAS =
     [(CONFUSED_USER,
       \<lparr>name = ''Confused User'', persona_type = CONFUSED_USER,
        description = ''A user who is confused and asks many clarifying questions'',
        traits = [''easily confused'', ''asks for clarification'', ''repeats information back'',
                  ''uncertain about technical terms'', ''needs step-by-step guidance''],
        response_style = ''Ask clarifying questions, express confusion about technical terms, request simpler explanations'',
        min_confidence = 0.7, max_confidence = 1.0\<rparr>),
      (NERVOUS_ELDER,
       \<lparr>name = ''Nervous Elder'', persona_type = NERVOUS_ELDER,
        description = ''An elderly person who is nervous about technology and security'',
        traits = [''worried about security'', ''not tech-savvy'', ''cautious and hesitant'',
                  ''asks about safety'', ''mentions family members who help with tech''],
        response_style = ''Express worry and caution, mention needing to ask family, show hesitation about online actions'',
        min_confidence = 0.5, max_confidence = 0.7\<rparr>),
      (OVER_POLITE,
       \<lparr>name = ''Over-Polite User'', persona_type = OVER_POLITE,
        description = ''An excessively polite user who apologizes frequently'',
        traits = [''extremely polite'', ''apologizes often'', ''thanks repeatedly'',
                  ''deferential to authority'', ''eager to comply but slow to act''],
        response_style = ''Be overly polite, apologize for delays, thank profusely, show eagerness to help while being slow'',
        min_confidence = 0.3, max_confidence = 0.5\<rparr>),
      (TECH_SAVVY,
       \<lparr>name = ''Tech-Savvy Skeptic'', persona_type = TECH_SAVVY,
        description = ''A tech-aware user who is becoming suspicious'',
        traits = [''asks technical questions'', ''requests verification'',
                  ''mentions security concerns'', ''questions legitimacy subtly'',
                  ''wants official channels''],
        response_style = ''Ask for verification, mention official websites, express mild skepticism, request documentation'',
        min_confidence = 0.0, max_confidence = 0.3\<rparr>)]"

text \<open>The two lines \<open>select_persona\<close> can write to the log.\<close>

datatype log_line =
  PersonaSwitching string string real
| NoPersonaMatch real

text \<open>A Python \<open>Optional[str]\<close> used as a condition: neither \<open>None\<close> nor empty.\<close>

definition truthy :: "string option \<Rightarrow> bool" where
  "truthy s = (case s of None \<Rightarrow> False | Some v \<Rightarrow> v \<noteq> [])"

text \<open>
  The \<open>for\<close> loop of \<open>select_persona\<close> over the entries still to visit: \<open>Some\<close> when it
  returns from inside the loop, \<open>None\<close> when it runs to its end.
\<close>

fun select_loop ::
  "(PersonaType \<times> Persona) list \<Rightarrow> real \<Rightarrow> string option \<Rightarrow> (Persona \<times> log_line list) option" where
  "select_loop [] confidence current = None"
| "select_loop ((ptype, persona) # rest) confidence current =
     (if min_confidence persona \<le> confidence \<and> confidence \<le> max_confidence persona
      then Some (persona,
                 if truthy current \<and> current \<noteq> Some (persona_value ptype)
                 then [PersonaSwitching (str_opt current) (persona_value ptype) confidence]
                 else [])
      else select_loop rest confidence current)"

text \<open>\<open>d[k]\<close> on the persona table; every \<open>PersonaType\<close> is a key of it.\<close>

definition persona_of :: "PersonaType \<Rightarrow> Persona option" where
  "persona_of t = map_of PERSONAS t"

definition select_persona :: "real \<Rightarrow> string option \<Rightarrow> Persona \<times> log_line list" where
  "select_persona confidence current =
     (case select_loop PERSONAS confidence current of
        Some r \<Rightarrow> r
      | None \<Rightarrow> (the (persona_of CONFUSED_USER), [NoPersonaMatch confidence]))"

text \<open>\<open>PersonaType(s)\<close> raises \<open>ValueError\<close> unless \<open>s\<close> is the value of a member.\<close>

definition PersonaType_of :: "string \<Rightarrow> PersonaType option" where
  "PersonaType_of s =
     (if s = ''confused_user'' then Some CONFUSED_USER
      else if s = ''nervous_elder'' then Some NERVOUS_ELDER
      else if s = ''over_polite'' then Some OVER_POLITE
      else if s = ''tech_savvy'' then Some TECH_SAVVY
      else None)"

definition get_persona_by_type :: "string \<Rightarrow> Persona option" where
  "get_persona_by_type s =
     (case PersonaType_of s of None \<Rightarrow> None | Some t \<Rightarrow> persona_of t)"

definition build_persona_prompt :: "Persona \<Rightarrow> string \<Rightarrow> string \<Rightarrow> string \<Rightarrow> prompt" where
  "build_persona_prompt persona topic mode scammer_message =
     \<lparr>prompt_persona = persona, prompt_topic = topic, prompt_mode = mode,
      prompt_scammer_message = scammer_message\<rparr>"

text \<open>\<open>get_exit_message\<close> returns the first of the two messages listed for the type.\<close>

fun exit_messages :: "PersonaType \<Rightarrow> string list" where
  "exit_messages CONFUSED_USER =
     [''I'm getting too confused. I'll visit the branch directly to sort this out.'',
      ''This is too complicated for me. I'll go to the office in person tomorrow.'']"
| "exit_messages NERVOUS_ELDER =
     [''I'm feeling very nervous about this. I'll ask my son to help me at the bank.'',
      ''This is making me worried. I prefer to handle this face-to-face at the branch.'']"
| "exit_messages OVER_POLITE =
     [''Thank you so much for your help, but I think I'll visit the branch to be safe. Sorry for the trouble!'',
      ''I really appreciate your assistance, but I'd feel more comfortable doing this in person. Thank you!'']"
| "exit_messages TECH_SAVVY =
     [''I'll verify this through the official website and contact support directly. Thanks.'',
      ''I prefer to handle this through official channels. I'll call the verified customer service number.'']"

definition get_exit_message :: "Persona \<Rightarrow> string" where
  "get_exit_message persona = hd (exit_messages (persona_type persona))"

section \<open>agent.py: replies\<close>

definition detect_topic :: "env \<Rightarrow> string \<Rightarrow> string" where
  "detect_topic env message =
     (let msg = str_lower env message
      in if str_in ''fee'' msg \<or> str_in ''payment'' msg then ''PAYMENT''
         else if str_in ''otp'' msg then ''OTP''
         else if str_in ''link'' msg \<or> str_in ''click'' msg then ''LINK''
         else if str_in ''bank'' msg \<or> str_in ''upi'' msg then ''BANK''
         else ''GENERAL'')"

text \<open>
  \<open>call_llm\<close>: up to three attempts. An exception whose lower-cased message contains
  \<open>quota\<close>, \<open>connection\<close> or \<open>remote\<close> leads to the next attempt (after a sleep, which has
  no counterpart here); any other exception ends the loop with a fixed sentence; three
  failed attempts end it with another.
\<close>

fun call_llm_loop :: "env \<Rightarrow> prompt \<Rightarrow> nat \<Rightarrow> nat \<Rightarrow> string" where
  "call_llm_loop env p attempt 0 = ''System busy, please try later.''"
| "call_llm_loop env p attempt (Suc remaining) =
     (case generate_content env attempt p of
        Inr response_text \<Rightarrow> response_text
      | Inl e \<Rightarrow>
          (let error_str = str_lower env e
           in if str_in ''quota'' error_str \<or> str_in ''connection'' error_str
                 \<or> str_in ''remote'' error_str
              then call_llm_loop env p (Suc attempt) remaining
              else ''I'm having trouble understanding. Can you repeat that?''))"

definition call_llm :: "env \<Rightarrow> prompt \<Rightarrow> string" where
  "call_llm env p = call_llm_loop env p 0 3"

definition generate_reply ::
  "env \<Rightarrow> real \<Rightarrow> string \<Rightarrow> string option \<Rightarrow> error + (string \<times> string)" where
  "generate_reply env confidence last_message current =
     (let persona = fst (select_persona confidence current);
          topic = detect_topic env last_message
      in case decide_mode confidence of
           Inl e \<Rightarrow> Inl e
         | Inr mode \<Rightarrow>
             (let p = build_persona_prompt persona topic mode last_message;
                  reply_text = call_llm env p
              in Inr (reply_text, persona_value (persona_type persona))))"

definition generate_exit_message :: "string option \<Rightarrow> string" where
  "generate_exit_message current =
     (let persona = (if truthy current then get_persona_by_type (str_opt current)
                     else Some (fst (select_persona 0.2 None)))
      in case persona of
           None \<Rightarrow> ''I will visit the bank branch directly. Thank you.''
         | Some p \<Rightarrow> get_exit_message p)"

section \<open>extraction.py\<close>

text \<open>
  \<open>list(set(xs))\<close> keeps one copy of every element. Python leaves the order of the result
  open; \<^const>\<open>remdups\<close> is one such order, and the statements below speak of the elements
  (\<^const>\<open>set\<close>) only.
\<close>

definition list_set :: "string list \<Rightarrow> string list" where
  "list_set xs = remdups xs"

definition UPI_PROVIDERS :: "string list" where
  "UPI_PROVIDERS =
     [''paytm'', ''phonepe'', ''googlepay'', ''ybl'', ''oksbi'', ''okhdfcbank'',
      ''okicici'', ''okaxis'', ''ibl'', ''axl'', ''upi'']"

text \<open>\<open>m.split('@')[1]\<close> for a string that contains \<open>@\<close>: what stands between the first
  \<open>@\<close> and the next one (or the end).\<close>

definition split_at_1 :: "string \<Rightarrow> string" where
  "split_at_1 m = takeWhile (\<lambda>c. c \<noteq> CHR ''@'') (tl (dropWhile (\<lambda>c. c \<noteq> CHR ''@'') m))"

definition extract_upi_ids :: "env \<Rightarrow> string \<Rightarrow> string list" where
  "extract_upi_ids env txt =
     list_set
       (filter
          (\<lambda>m. CHR ''@'' \<in> set m \<and>
               (let provider = str_lower env (split_at_1 m)
                in list_ex (\<lambda>p. str_in p provider) UPI_PROVIDERS \<or> str_in ''bank'' provider))
          (upi_findall env txt))"

text \<open>\<open>re.sub(r'[\s\-]', '', m)\<close>: white space and dashes removed.\<close>

definition is_space_or_dash :: "char \<Rightarrow> bool" where
  "is_space_or_dash c =
     (c \<in> set [CHR '' '', CHR 0x09, CHR 0x0A, CHR 0x0B, CHR 0x0C, CHR 0x0D, CHR ''-''])"

definition normalize_phone :: "string \<Rightarrow> string" where
  "normalize_phone m =
     (let clean = filter (\<lambda>c. \<not> is_space_or_dash c) m
      in if startswith clean ''+91'' then drop 3 clean
         else if startswith clean ''91'' \<and> length clean = 12 then drop 2 clean
         else clean)"

definition extract_phone_numbers :: "env \<Rightarrow> string \<Rightarrow> string list" where
  "extract_phone_numbers env txt =
     list_set (filter (\<lambda>clean. length clean = 10) (map normalize_phone (phone_findall env txt)))"

definition extract_urls :: "env \<Rightarrow> string \<Rightarrow> string list" where
  "extract_urls env txt = list_set (url_findall env txt)"

text \<open>\<open>s.replace(w, "")\<close> for a non-empty \<open>w\<close>: every occurrence of \<open>w\<close>, found from the
  left and not overlapping, is removed.\<close>

function remove_all :: "string \<Rightarrow> string \<Rightarrow> string" where
  "remove_all w [] = []"
| "remove_all w (c # cs) =
     (if w \<noteq> [] \<and> startswith (c # cs) w then remove_all w (drop (length w) (c # cs))
      else c # remove_all w cs)"
  by pat_completeness auto
termination
  by (relation "measure (\<lambda>(w, s). length s)") (auto simp: startswith_def)

definition extract_suspicious_keywords :: "string \<Rightarrow> string list \<Rightarrow> string list" where
  "extract_suspicious_keywords txt detected_flags =
     list_set (map (remove_all ''keyword:'')
                 (filter (\<lambda>flag. startswith flag ''keyword:'') detected_flags))"

text \<open>An intelligence dictionary: from field name to list of strings.\<close>

type_synonym intelligence = "string \<rightharpoonup> string list"

definition extract_all_intelligence :: "env \<Rightarrow> string \<Rightarrow> string list option \<Rightarrow> intelligence" where
  "extract_all_intelligence env txt detection_flags =
     [''upiIds'' \<mapsto> extract_upi_ids env txt,
      ''phoneNumbers'' \<mapsto> extract_phone_numbers env txt,
      ''phishingLinks'' \<mapsto> extract_urls env txt,
      ''suspiciousKeywords'' \<mapsto>
         extract_suspicious_keywords txt (case detection_flags of None \<Rightarrow> [] | Some fs \<Rightarrow> fs)]"

text \<open>\<open>d.get(key, [])\<close>\<close>

definition get_list :: "intelligence \<Rightarrow> string \<Rightarrow> string list" where
  "get_list d key = (case d key of None \<Rightarrow> [] | Some v \<Rightarrow> v)"

definition intelligence_keys :: "string list" where
  "intelligence_keys = [''upiIds'', ''phoneNumbers'', ''phishingLinks'', ''suspiciousKeywords'']"

definition merge_intelligence :: "intelligence \<Rightarrow> intelligence \<Rightarrow> intelligence" where
  "merge_intelligence existing new =
     foldl (\<lambda>merged key. merged(key \<mapsto> list_set (get_list existing key @ get_list new key)))
       Map.empty intelligence_keys"

section \<open>callback.py\<close>

text \<open>
  The retry loop of \<open>send_final_callback\<close>: it returns \<open>True\<close> at the first post that
  succeeds and \<open>False\<close> when \<open>max_retries\<close> posts have failed. The sleeps between the
  attempts have no counterpart here.
\<close>

fun callback_loop :: "env \<Rightarrow> callback_payload \<Rightarrow> nat \<Rightarrow> nat \<Rightarrow> bool" where
  "callback_loop env p attempt 0 = False"
| "callback_loop env p attempt (Suc remaining) =
     (if requests_post env attempt p then True
      else callback_loop env p (Suc attempt) remaining)"

section \<open>models.py\<close>

record Message =
  sender :: string
  msg_text :: string
  timestamp :: string

record IncomingRequest =
  sessionId :: string
  message :: Message

record MessageResponse =
  status :: string
  reply :: "string option"
  resp_confidence :: real
  resp_session_id :: "string option"
  resp_turns :: "int option"
  agent_engaged :: bool
  scam_detected :: bool

text \<open>
  The field \<open>confidence\<close> of \<open>MessageResponse\<close> is declared with \<open>ge=0.0, le=1.0\<close>:
  constructing a response with a value outside raises a validation error.
\<close>

definition new_MessageResponse ::
  "string option \<Rightarrow> real \<Rightarrow> string \<Rightarrow> int \<Rightarrow> bool \<Rightarrow> bool \<Rightarrow> error + MessageResponse" where
  "new_MessageResponse r c sid t engaged scam =
     (if 0 \<le> c \<and> c \<le> 1
      then Inr \<lparr>status = ''success'', reply = r, resp_confidence = c,
                resp_session_id = Some sid, resp_turns = Some t,
                agent_engaged = engaged, scam_detected = scam\<rparr>
      else Inl (ValidationError ''confidence''))"

text \<open>One entry of \<open>persona_history\<close>: the dictionary with keys \<open>from\<close>, \<open>to\<close>, \<open>turn\<close>,
  \<open>confidence\<close>.\<close>

record persona_switch =
  switch_from :: "string option"
  switch_to :: string
  switch_turn :: int
  switch_confidence :: real

record SessionData =
  confidence :: real
  turns :: int
  completed :: bool
  extracted :: ExtractedIntelligence
  created_at :: nat
  last_activity :: nat
  current_persona :: "string option"
  persona_history :: "persona_switch list"
  behavior_patterns :: "string \<rightharpoonup> int"
  message_history :: "string list"

text \<open>\<open>ExtractedIntelligence.dict()\<close> and \<open>ExtractedIntelligence(**d)\<close> (a missing field
  takes its default, the empty list).\<close>

definition intelligence_dict :: "ExtractedIntelligence \<Rightarrow> intelligence" where
  "intelligence_dict e =
     [''upiIds'' \<mapsto> upiIds e, ''phoneNumbers'' \<mapsto> phoneNumbers e,
      ''phishingLinks'' \<mapsto> phishingLinks e, ''suspiciousKeywords'' \<mapsto> suspiciousKeywords e]"

definition new_ExtractedIntelligence :: "intelligence \<Rightarrow> ExtractedIntelligence" where
  "new_ExtractedIntelligence d =
     \<lparr>upiIds = get_list d ''upiIds'', phoneNumbers = get_list d ''phoneNumbers'',
      phishingLinks = get_list d ''phishingLinks'',
      suspiciousKeywords = get_list d ''suspiciousKeywords''\<rparr>"

definition send_final_callback ::
  "Settings \<Rightarrow> env \<Rightarrow> string \<Rightarrow> SessionData \<Rightarrow> callback_payload \<times> bool" where
  "send_final_callback settings env session_id session =
     (let max_retries = callback_retry_attempts settings;
          payload = \<lparr>cb_sessionId = session_id, cb_scamDetected = True,
                     cb_totalMessagesExchanged = turns session,
                     cb_extractedIntelligence = extracted session,
                     cb_agentNotes = ''Scammer used urgency, repetition, and threat escalation'',
                     cb_finalConfidence = confidence session\<rparr>
      in (payload, callback_loop env payload 0 (nat max_retries)))"

section \<open>main.py: the inbound-message operation\<close>

text \<open>
  \<open>SESSIONS\<close>, the dictionary from session id to session, is a map. \<open>handle_message\<close> runs
  from its first statement to its \<open>return\<close> without giving up control, so it is a function
  from the store before to the store after, together with what it sent out and what it
  answered. It is cut here into the stretches of its body, in order.
\<close>

type_synonym store = "string \<rightharpoonup> SessionData"

text \<open>Create or load the session, refresh \<open>last_activity\<close>.\<close>

definition load_session :: "env \<Rightarrow> store \<Rightarrow> string \<Rightarrow> SessionData" where
  "load_session env SESSIONS session_id =
     (case SESSIONS session_id of
        None \<Rightarrow>
          \<lparr>confidence = 1.0, turns = 0, completed = False,
           extracted = \<lparr>upiIds = [], phoneNumbers = [], phishingLinks = [],
                        suspiciousKeywords = []\<rparr>,
           created_at = utcnow env 0, last_activity = utcnow env 2,
           current_persona = None, persona_history = [],
           behavior_patterns = Map.empty, message_history = []\<rparr>
      | Some session \<Rightarrow> session\<lparr>last_activity := utcnow env 0\<rparr>)"

text \<open>Append the message to the history and keep the last ten.\<close>

definition add_to_history :: "string \<Rightarrow> SessionData \<Rightarrow> SessionData" where
  "add_to_history message_text session =
     (let h = message_history session @ [message_text]
      in session\<lparr>message_history := (if length h > 10 then last_n 10 h else h)\<rparr>)"

text \<open>
  The scam branch up to \<open>session.turns += 1\<close>: behaviour counters, confidence, extracted
  intelligence, turn counter.
\<close>

definition record_scam_turn :: "env \<Rightarrow> string \<Rightarrow> detection_result \<Rightarrow> SessionData \<Rightarrow> SessionData" where
  "record_scam_turn env message_text detection session =
     (let s1 = (if ''urgency'' \<in> set (flags detection)
                then session\<lparr>behavior_patterns :=
                       (behavior_patterns session)
                         (''urgency'' \<mapsto> get_count (behavior_patterns session) ''urgency'' + 1)\<rparr>
                else session);
          s2 = (if ''threat'' \<in> set (flags detection)
                then s1\<lparr>behavior_patterns :=
                       (behavior_patterns s1)
                         (''threat'' \<mapsto> get_count (behavior_patterns s1) ''threat'' + 1)\<rparr>
                else s1);
          s3 = s2\<lparr>confidence :=
                   update_confidence (confidence s2) (flags detection)
                     (Some (repetition detection)) (Some (escalation detection))\<rparr>;
          new_intelligence = extract_all_intelligence env message_text (Some (flags detection));
          s4 = s3\<lparr>extracted :=
                   new_ExtractedIntelligence
                     (merge_intelligence (intelligence_dict (extracted s3)) new_intelligence)\<rparr>
      in s4\<lparr>turns := turns s4 + 1\<rparr>)"

definition should_exit :: "Settings \<Rightarrow> SessionData \<Rightarrow> bool \<times> string option" where
  "should_exit settings session =
     (if confidence session \<le> exit_confidence_threshold settings
      then (True, Some ''confidence_threshold'')
      else
        (let has_critical_intel =
               (length (upiIds (extracted session)) > 0 \<or>
                length (phoneNumbers (extracted session)) > 0 \<or>
                length (phishingLinks (extracted session)) > 0)
         in if has_critical_intel \<and> turns session \<ge> 3
            then (True, Some ''intelligence_collected'')
            else if turns session \<ge> 15 then (True, Some ''max_turns_reached'')
            else (False, None)))"

text \<open>
  The \<open>if exit_needed and not session.completed: ... else: ...\<close> statement: the session
  after it, the callbacks sent (payload and outcome), and the reply.
\<close>

definition exit_or_reply ::
  "Settings \<Rightarrow> env \<Rightarrow> string \<Rightarrow> string \<Rightarrow> SessionData
     \<Rightarrow> SessionData \<times> (callback_payload \<times> bool) list \<times> string" where
  "exit_or_reply settings env session_id message_text session =
     (let (exit_needed, exit_reason) = should_exit settings session
      in if exit_needed \<and> \<not> completed session
         then
           (let sent = send_final_callback settings env session_id session;
                s1 = session\<lparr>completed := True\<rparr>
            in (s1, [sent], generate_exit_message (current_persona s1)))
         else
           (case generate_reply env (confidence session) message_text (current_persona session) of
              Inr (reply_text, new_persona) \<Rightarrow>
                (if Some new_persona \<noteq> current_persona session
                 then (session\<lparr>persona_history :=
                                  persona_history session @
                                    [\<lparr>switch_from = current_persona session,
                                      switch_to = new_persona,
                                      switch_turn = turns session,
                                      switch_confidence = confidence session\<rparr>],
                                current_persona := Some new_persona\<rparr>,
                       [], reply_text)
                 else (session, [], reply_text))
            | Inl e \<Rightarrow> (session, [], ''I'm not sure I understand. Can you explain more?'')))"

record outcome =
  sessions_after :: store
  callbacks_sent :: "(callback_payload \<times> bool) list"
  response :: "error + MessageResponse"

definition handle_message :: "Settings \<Rightarrow> env \<Rightarrow> store \<Rightarrow> IncomingRequest \<Rightarrow> outcome" where
  "handle_message settings env SESSIONS payload =
     (let session_id = sessionId payload;
          message_text = msg_text (message payload);
          session = add_to_history message_text (load_session env SESSIONS session_id);
          detection = detect_scam settings env message_text
                        (butlast (message_history session)) (behavior_patterns session)
      in if \<not> is_scam detection
         then
           \<lparr>sessions_after = SESSIONS(session_id \<mapsto> session),
            callbacks_sent = [],
            response = new_MessageResponse None 1.0 session_id (turns session) False False\<rparr>
         else
           (let s1 = record_scam_turn env message_text detection session;
                (s2, sent, reply_text) = exit_or_reply settings env session_id message_text s1
            in \<lparr>sessions_after = SESSIONS(session_id \<mapsto> s2),
                callbacks_sent = sent,
                response = new_MessageResponse (Some reply_text) (confidence s2) session_id
                             (turns s2) True True\<rparr>))"

text \<open>
  A conversation: the requests that arrive, each with the environment it is processed in,
  handled one after the other. \<open>run\<close> returns the store at the end and every callback sent
  on the way, in order.
\<close>

fun run ::
  "Settings \<Rightarrow> store \<Rightarrow> (env \<times> IncomingRequest) list \<Rightarrow> store \<times> (callback_payload \<times> bool) list" where
  "run settings SESSIONS [] = (SESSIONS, [])"
| "run settings SESSIONS ((env, payload) # rest) =
     (let out = handle_message settings env SESSIONS payload;
          (final, sent) = run settings (sessions_after out) rest
      in (final, callbacks_sent out @ sent))"

text \<open>What \<open>main.py\<close> would read as the confidence of a session id: the stored value, or the
  \<open>1.0\<close> a session is created with.\<close>

definition confidence_of :: "store \<Rightarrow> string \<Rightarrow> real" where
  "confidence_of SESSIONS session_id =
     (case SESSIONS session_id of None \<Rightarrow> 1 | Some session \<Rightarrow> confidence session)"

section \<open>Notions used in the statements\<close>

subsection \<open>The summands of the decay\<close>

text \<open>
  \<open>decay\<close> is the sum of what the flags, the repetition result and the escalation result
  contribute (lemma \<open>decay_parts\<close> below).
\<close>

definition flag_decay :: "string list \<Rightarrow> real" where
  "flag_decay fs =
     (if ''urgency'' \<in> set fs then 0.1 else 0)
     + (if keyword_count fs \<ge> 3 then 0.15 else if keyword_count fs \<ge> 2 then 0.08 else 0)
     + (if ''threat'' \<in> set fs then 0.2 else 0)"

definition repetition_decay :: "repetition_result option \<Rightarrow> real" where
  "repetition_decay repetition_data =
     (case repetition_data of
        None \<Rightarrow> 0
      | Some r \<Rightarrow>
          if is_repetitive r
          then 0.1 * similarity r + (if repeated_count r \<ge> 2 then 0.1 else 0)
          else 0)"

definition escalation_decay :: "escalation_result option \<Rightarrow> real" where
  "escalation_decay escalation_data =
     (case escalation_data of
        None \<Rightarrow> 0
      | Some e \<Rightarrow>
          if is_escalating e
          then (if escalation_type e = Some ''final_warning'' then 0.15
                else if escalation_type e = Some ''repeated_pressure'' then 0.12 else 0)
          else 0)"

text \<open>The repetition (escalation) argument contributes nothing: absent, or not detected.\<close>

definition repetition_off :: "repetition_result option \<Rightarrow> bool" where
  "repetition_off repetition_data =
     (case repetition_data of None \<Rightarrow> True | Some r \<Rightarrow> \<not> is_repetitive r)"

definition escalation_off :: "escalation_result option \<Rightarrow> bool" where
  "escalation_off escalation_data =
     (case escalation_data of None \<Rightarrow> True | Some e \<Rightarrow> \<not> is_escalating e)"

text \<open>
  The similarity of a repetition result is not negative. It is a rounded maximum of \<open>0.0\<close>
  and similarity ratios, so every result of \<open>detect_repetition\<close> is of this kind (lemma
  \<open>detect_repetition_similarity_nonneg\<close> below).
\<close>

definition sim_ok :: "repetition_result option \<Rightarrow> bool" where
  "sim_ok repetition_data = (case repetition_data of None \<Rightarrow> True | Some r \<Rightarrow> 0 \<le> similarity r)"

subsection \<open>The persona bands and the exit policy, as specified\<close>

definition in_band :: "real \<Rightarrow> PersonaType \<times> Persona \<Rightarrow> bool" where
  "in_band c entry = (min_confidence (snd entry) \<le> c \<and> c \<le> max_confidence (snd entry))"

text \<open>
  The exit policy in the words of the specification: three conditions with their reasons,
  in order; the first that is true decides.
\<close>

definition exit_conditions :: "Settings \<Rightarrow> SessionData \<Rightarrow> (bool \<times> string) list" where
  "exit_conditions settings session =
     [(confidence session \<le> exit_confidence_threshold settings, ''confidence_threshold''),
      ((upiIds (extracted session) \<noteq> [] \<or> phoneNumbers (extracted session) \<noteq> [] \<or>
        phishingLinks (extracted session) \<noteq> []) \<and> turns session \<ge> 3,
       ''intelligence_collected''),
      (turns session \<ge> 15, ''max_turns_reached'')]"

fun first_true :: "(bool \<times> string) list \<Rightarrow> bool \<times> string option" where
  "first_true [] = (False, None)"
| "first_true ((holds, reason) # rest) = (if holds then (True, Some reason) else first_true rest)"

subsection \<open>The values \<open>handle_message\<close> passes through\<close>

text \<open>
  In the order of the body of \<open>handle_message\<close>: the session once the message is in its
  history (\<open>session_in\<close>), the result of \<open>detect_scam\<close> (\<open>detection_in\<close>), the session of the
  scam branch once the turn is counted (\<open>scam_session\<close>), the condition of the \<open>if\<close> that
  leads to the callback (\<open>exit_fires\<close>), and the session and the reply at the \<open>return\<close>
  (\<open>session_out\<close>, \<open>reply_out\<close>).
\<close>

definition session_in :: "env \<Rightarrow> store \<Rightarrow> IncomingRequest \<Rightarrow> SessionData" where
  "session_in env SESSIONS payload =
     add_to_history (msg_text (message payload)) (load_session env SESSIONS (sessionId payload))"

definition detection_in :: "Settings \<Rightarrow> env \<Rightarrow> store \<Rightarrow> IncomingRequest \<Rightarrow> detection_result" where
  "detection_in settings env SESSIONS payload =
     detect_scam settings env (msg_text (message payload))
       (butlast (message_history (session_in env SESSIONS payload)))
       (behavior_patterns (session_in env SESSIONS payload))"

definition scam_session :: "Settings \<Rightarrow> env \<Rightarrow> store \<Rightarrow> IncomingRequest \<Rightarrow> SessionData" where
  "scam_session settings env SESSIONS payload =
     record_scam_turn env (msg_text (message payload)) (detection_in settings env SESSIONS payload)
       (session_in env SESSIONS payload)"

definition exit_fires :: "Settings \<Rightarrow> SessionData \<Rightarrow> bool" where
  "exit_fires settings session = (fst (should_exit settings session) \<and> \<not> completed session)"

definition session_out :: "Settings \<Rightarrow> env \<Rightarrow> store \<Rightarrow> IncomingRequest \<Rightarrow> SessionData" where
  "session_out settings env SESSIONS payload =
     (if is_scam (detection_in settings env SESSIONS payload)
      then fst (exit_or_reply settings env (sessionId payload) (msg_text (message payload))
                  (scam_session settings env SESSIONS payload))
      else session_in env SESSIONS payload)"

definition reply_out :: "Settings \<Rightarrow> env \<Rightarrow> store \<Rightarrow> IncomingRequest \<Rightarrow> string" where
  "reply_out settings env SESSIONS payload =
     snd (snd (exit_or_reply settings env (sessionId payload) (msg_text (message payload))
                 (scam_session settings env SESSIONS payload)))"

text \<open>The sentence \<open>handle_message\<close> answers with when \<open>generate_reply\<close> raises.\<close>

definition neutral_fallback :: string where
  "neutral_fallback = ''I'm not sure I understand. Can you explain more?''"

text \<open>Whether \<open>generate_reply\<close> returns in the scam branch, and the persona it selects.\<close>

definition reply_generated :: "Settings \<Rightarrow> env \<Rightarrow> store \<Rightarrow> IncomingRequest \<Rightarrow> bool" where
  "reply_generated settings env SESSIONS payload =
     (case generate_reply env (confidence (scam_session settings env SESSIONS payload))
             (msg_text (message payload))
             (current_persona (scam_session settings env SESSIONS payload)) of
        Inl e \<Rightarrow> False
      | Inr r \<Rightarrow> True)"

definition selected_persona :: "Settings \<Rightarrow> env \<Rightarrow> store \<Rightarrow> IncomingRequest \<Rightarrow> string" where
  "selected_persona settings env SESSIONS payload =
     persona_value (persona_type (fst (select_persona
        (confidence (scam_session settings env SESSIONS payload))
        (current_persona (scam_session settings env SESSIONS payload)))))"

text \<open>
  When \<open>handle_message\<close> appends to \<open>persona_history\<close>: on a scam verdict, when the exit does
  not fire, the reply is generated, and the persona selected is not the current one.
\<close>

definition persona_recorded :: "Settings \<Rightarrow> env \<Rightarrow> store \<Rightarrow> IncomingRequest \<Rightarrow> bool" where
  "persona_recorded settings env SESSIONS payload =
     (is_scam (detection_in settings env SESSIONS payload) \<and>
      \<not> exit_fires settings (scam_session settings env SESSIONS payload) \<and>
      reply_generated settings env SESSIONS payload \<and>
      Some (selected_persona settings env SESSIONS payload) \<noteq>
        current_persona (load_session env SESSIONS (sessionId payload)))"

subsection \<open>Stores\<close>

text \<open>
  What holds of every stored session after any sequence of requests: its confidence is a
  two-decimal number in \<open>[0,1]\<close>.
\<close>

definition session_ok :: "SessionData \<Rightarrow> bool" where
  "session_ok session =
     (0 \<le> confidence session \<and> confidence session \<le> 1 \<and> two_decimals (confidence session))"

definition store_ok :: "store \<Rightarrow> bool" where
  "store_ok SESSIONS = (\<forall>session_id session. SESSIONS session_id = Some session \<longrightarrow> session_ok session)"

text \<open>A session id is completed when it has a session whose \<open>completed\<close> flag is set.\<close>

definition is_completed :: "store \<Rightarrow> string \<Rightarrow> bool" where
  "is_completed SESSIONS session_id =
     (case SESSIONS session_id of None \<Rightarrow> False | Some session \<Rightarrow> completed session)"

text \<open>The callbacks sent for one session id, among those sent.\<close>

definition callbacks_for :: "string \<Rightarrow> (callback_payload \<times> bool) list \<Rightarrow> (callback_payload \<times> bool) list" where
  "callbacks_for session_id sent = filter (\<lambda>c. cb_sessionId (fst c) = session_id) sent"

text \<open>How many callbacks a session can still cause: one until it is completed, none after.\<close>

definition callbacks_left :: "store \<Rightarrow> string \<Rightarrow> nat" where
  "callbacks_left SESSIONS session_id = (if is_completed SESSIONS session_id then 0 else 1)"

subsection \<open>Examples\<close>

text \<open>
  An environment for the examples: lower-casing of ASCII letters; the example messages
  hold no payment handle, phone number or link; similarity is only asked of equal texts
  (ratio \<open>1.0\<close>, printed \<open>1.0\<close>); the generation service answers at once and the callback
  post succeeds.
\<close>

definition lower_char :: "char \<Rightarrow> char" where
  "lower_char c =
     (case map_of (zip ''ABCDEFGHIJKLMNOPQRSTUVWXYZ'' ''abcdefghijklmnopqrstuvwxyz'') c of
        None \<Rightarrow> c
      | Some l \<Rightarrow> l)"

definition ascii_lower :: "string \<Rightarrow> string" where
  "ascii_lower s = map lower_char s"

definition example_env :: env where
  "example_env =
     \<lparr>str_lower = ascii_lower,
      seq_ratio = (\<lambda>a b. if a = b then 1 else 0),
      str_float = (\<lambda>x. ''1.0''),
      upi_findall = (\<lambda>s. []),
      phone_findall = (\<lambda>s. []),
      url_findall = (\<lambda>s. []),
      generate_content = (\<lambda>k p. Inr ''Which account do you mean?''),
      requests_post = (\<lambda>k p. True),
      utcnow = (\<lambda>k. k)\<rparr>"

definition example_request :: "string \<Rightarrow> IncomingRequest" where
  "example_request t =
     \<lparr>sessionId = ''s1'',
      message = \<lparr>sender = ''scammer'', msg_text = t, timestamp = ''2024-01-01T00:00:00Z''\<rparr>\<rparr>"

definition scam_text :: string where
  "scam_text = ''Your account is blocked. Pay immediately.''"

definition first_scam_text :: string where
  "first_scam_text = ''Urgent: share your OTP''"

definition greeting_text :: string where
  "greeting_text = ''Hello, how can I help you?''"

text \<open>A session late in a conversation, and the store that holds it.\<close>

definition example_session :: SessionData where
  "example_session =
     \<lparr>confidence = 0.3, turns = 20, completed = False,
      extracted = \<lparr>upiIds = [''fraud@ybl''], phoneNumbers = [], phishingLinks = [],
                   suspiciousKeywords = [''otp'']\<rparr>,
      created_at = 0, last_activity = 5,
      current_persona = Some ''over_polite'', persona_history = [],
      behavior_patterns = Map.empty, message_history = []\<rparr>"

definition example_store :: store where
  "example_store = [''s1'' \<mapsto> example_session]"

text \<open>A session no sequence of requests produces, with a confidence above \<open>1\<close>.\<close>

definition broken_store :: store where
  "broken_store = [''s1'' \<mapsto> example_session\<lparr>confidence := 2, turns := 0,
      extracted := \<lparr>upiIds = [], phoneNumbers = [], phishingLinks = [], suspiciousKeywords = []\<rparr>\<rparr>]"

text \<open>The store after one scam message of session \<open>s1\<close>, and after two: the second one
  fires the exit.\<close>

definition engaged_store :: store where
  "engaged_store = fst (run default_settings Map.empty [(example_env, example_request scam_text)])"

definition completed_store :: store where
  "completed_store =
     fst (run default_settings Map.empty
            [(example_env, example_request scam_text), (example_env, example_request scam_text)])"

definition example_intelligence :: "string list \<Rightarrow> intelligence" where
  "example_intelligence handles = [''upiIds'' \<mapsto> handles]"

section \<open>Evaluating the string tests\<close>

text \<open>\<open>startswith\<close> compared character by character, for evaluation.\<close>

lemma startswith_code [code]:
  "startswith s [] = True"
  "startswith [] (c # w) = False"
  "startswith (a # s) (c # w) = (a = c \<and> startswith s w)"
  by (auto simp: startswith_def)

section \<open>Rounding facts\<close>

lemma round_half_even_bounds:
  "\<lfloor>y\<rfloor> \<le> round_half_even y" "round_half_even y \<le> \<lfloor>y\<rfloor> + 1"
  by (simp_all add: round_half_even_def Let_def)

lemma round_half_even_mono:
  assumes "x \<le> y"
  shows "round_half_even x \<le> round_half_even y"
proof (cases "\<lfloor>x\<rfloor> = \<lfloor>y\<rfloor>")
  case True
  then show ?thesis
    using assms by (auto simp: round_half_even_def Let_def)
next
  case False
  with assms have "\<lfloor>x\<rfloor> + 1 \<le> \<lfloor>y\<rfloor>"
    using floor_mono [of x y] by linarith
  then show ?thesis
    using round_half_even_bounds(2) [of x] round_half_even_bounds(1) [of y] by linarith
qed

lemma round_half_even_of_int [simp]: "round_half_even (of_int k) = k"
  by (simp add: round_half_even_def Let_def)

lemma round2_mono: "x \<le> y \<Longrightarrow> round2 x \<le> round2 y"
  unfolding round2_def
  by (intro divide_right_mono iffD2 [OF of_int_le_iff] round_half_even_mono) simp_all

lemma round2_fixed: "two_decimals x \<Longrightarrow> round2 x = x"
proof -
  assume "two_decimals x"
  then have eq: "x * 100 = of_int \<lfloor>x * 100\<rfloor>"
    unfolding two_decimals_def by (rule sym)
  have "round_half_even (x * 100) = \<lfloor>x * 100\<rfloor>"
    by (subst eq) (rule round_half_even_of_int)
  then show ?thesis
    using eq by (simp add: round2_def)
qed

lemma two_decimals_round2 [simp]: "two_decimals (round2 x)"
  by (simp add: two_decimals_def round2_def)

lemma two_decimals_0 [simp]: "two_decimals 0"
  and two_decimals_1 [simp]: "two_decimals 1"
  by (simp_all add: two_decimals_def)

lemma round2_0 [simp]: "round2 0 = 0"
  by (simp add: round2_fixed)

lemma round2_1 [simp]: "round2 1 = 1"
  by (simp add: round2_fixed)

lemma round2_nonneg: "0 \<le> x \<Longrightarrow> 0 \<le> round2 x"
  using round2_mono [of 0 x] by simp

lemma round2_le_1: "x \<le> 1 \<Longrightarrow> round2 x \<le> 1"
  using round2_mono [of x 1] by simp

lemma decay_parts:
  "decay fs rep esc = flag_decay fs + repetition_decay rep + escalation_decay esc"
  by (cases rep; cases esc)
     (simp_all add: decay_def flag_decay_def repetition_decay_def escalation_decay_def Let_def)

lemma keyword_count_insert:
  "keyword_count (fs1 @ fs2) \<le> keyword_count (fs1 @ x # fs2)"
  by (simp add: keyword_count_def)

lemma urgency_part_mono:
  "(if w \<in> set (fs1 @ fs2) then (a::real) else 0) \<le> (if w \<in> set (fs1 @ x # fs2) then a else 0)"
  if "0 \<le> a"
  using that by auto

lemma keyword_part_mono:
  "j \<le> k \<Longrightarrow>
   (if j \<ge> 3 then 0.15 else if j \<ge> 2 then 0.08 else (0::real))
   \<le> (if k \<ge> 3 then 0.15 else if k \<ge> 2 then 0.08 else 0)" for j k :: nat
  by auto

lemma flag_decay_mono: "flag_decay (fs1 @ fs2) \<le> flag_decay (fs1 @ x # fs2)"
  unfolding flag_decay_def
  by (intro add_mono urgency_part_mono keyword_part_mono keyword_count_insert) simp_all

lemma decay_flag_mono:
  "decay (fs1 @ fs2) rep esc \<le> decay (fs1 @ x # fs2) rep esc"
  by (simp add: decay_parts flag_decay_mono)

lemma decay_repetition_mono:
  "repetition_off rep \<Longrightarrow> 0 \<le> similarity r \<Longrightarrow> decay fs rep esc \<le> decay fs (Some r) esc"
  by (cases rep) (simp_all add: decay_parts repetition_decay_def repetition_off_def)

lemma escalation_decay_nonneg: "0 \<le> escalation_decay esc"
  by (cases esc) (simp_all add: escalation_decay_def)

lemma decay_escalation_mono:
  "escalation_off esc \<Longrightarrow> decay fs rep esc \<le> decay fs rep (Some e)"
  using escalation_decay_nonneg [of "Some e"]
  by (cases esc) (simp_all add: decay_parts escalation_off_def escalation_decay_def)

lemma handle_message_pass:
  assumes "\<not> is_scam (detection_in settings env S p)"
  shows "handle_message settings env S p =
           \<lparr>sessions_after = S(sessionId p \<mapsto> session_in env S p),
            callbacks_sent = [],
            response = new_MessageResponse None 1 (sessionId p)
                         (turns (session_in env S p)) False False\<rparr>"
  using assms by (simp add: handle_message_def Let_def session_in_def detection_in_def)

lemma handle_message_scam:
  assumes "is_scam (detection_in settings env S p)"
  shows "handle_message settings env S p =
           (case exit_or_reply settings env (sessionId p) (msg_text (message p))
                   (scam_session settings env S p) of
              (s2, sent, reply_text) \<Rightarrow>
                \<lparr>sessions_after = S(sessionId p \<mapsto> s2),
                 callbacks_sent = sent,
                 response = new_MessageResponse (Some reply_text) (confidence s2) (sessionId p)
                              (turns s2) True True\<rparr>)"
  using assms
  by (simp add: handle_message_def Let_def session_in_def detection_in_def scam_session_def)

lemma repetition_loop_fst_ge:
  "m \<le> fst (repetition_loop env msg thr hist (m, c))"
proof (induction hist arbitrary: m c)
  case Nil
  then show ?case by simp
next
  case (Cons h hist)
  have "m \<le> max m (calculate_similarity env msg h)" by simp
  also have "\<dots> \<le> fst (repetition_loop env msg thr (h # hist) (m, c))"
    using Cons.IH by (simp add: Let_def)
  finally show ?case .
qed

lemma detect_repetition_similarity_nonneg:
  "0 \<le> similarity (detect_repetition env msg hist thr)"
proof (cases "hist = []")
  case True
  then show ?thesis by (simp add: detect_repetition_def)
next
  case False
  obtain m c where mc: "repetition_loop env msg thr (last_n 5 hist) (0, 0) = (m, c)"
    by (cases "repetition_loop env msg thr (last_n 5 hist) (0, 0)")
  have "0 \<le> m"
    using repetition_loop_fst_ge [of 0 env msg thr "last_n 5 hist" 0] mc by simp
  then show ?thesis
    using False mc by (simp add: detect_repetition_def Let_def round2_nonneg)
qed

lemma repetition_detect_scam:
  "repetition (detect_scam settings env msg hist bp) = detect_repetition env msg hist 0.7"
  by (simp add: detect_scam_def Let_def)

lemma sim_ok_detect_scam: "sim_ok (Some (repetition (detect_scam settings env msg hist bp)))"
  by (simp add: sim_ok_def repetition_detect_scam detect_repetition_similarity_nonneg)

lemma load_session_confidence:
  "confidence (load_session env S sid) = confidence_of S sid"
  by (simp add: load_session_def confidence_of_def split: option.splits)

lemma load_session_completed:
  "completed (load_session env S sid) = is_completed S sid"
  by (simp add: load_session_def is_completed_def split: option.splits)

lemma add_to_history_fields [simp]:
  "confidence (add_to_history t s) = confidence s"
  "turns (add_to_history t s) = turns s"
  "completed (add_to_history t s) = completed s"
  "extracted (add_to_history t s) = extracted s"
  "created_at (add_to_history t s) = created_at s"
  "last_activity (add_to_history t s) = last_activity s"
  "current_persona (add_to_history t s) = current_persona s"
  "persona_history (add_to_history t s) = persona_history s"
  "behavior_patterns (add_to_history t s) = behavior_patterns s"
  by (simp_all add: add_to_history_def Let_def)

lemma record_scam_turn_fields:
  "confidence (record_scam_turn env t d s) =
     update_confidence (confidence s) (flags d) (Some (repetition d)) (Some (escalation d))"
  "turns (record_scam_turn env t d s) = turns s + 1"
  "completed (record_scam_turn env t d s) = completed s"
  "current_persona (record_scam_turn env t d s) = current_persona s"
  "persona_history (record_scam_turn env t d s) = persona_history s"
  "message_history (record_scam_turn env t d s) = message_history s"
  "created_at (record_scam_turn env t d s) = created_at s"
  "last_activity (record_scam_turn env t d s) = last_activity s"
  by (simp_all add: record_scam_turn_def Let_def)

lemma session_in_confidence: "confidence (session_in env S p) = confidence_of S (sessionId p)"
  by (simp add: session_in_def load_session_confidence)

lemma session_in_completed: "completed (session_in env S p) = is_completed S (sessionId p)"
  by (simp add: session_in_def load_session_completed)

lemma scam_session_confidence:
  "confidence (scam_session settings env S p) =
     update_confidence (confidence_of S (sessionId p)) (flags (detection_in settings env S p))
       (Some (repetition (detection_in settings env S p)))
       (Some (escalation (detection_in settings env S p)))"
  by (simp add: scam_session_def record_scam_turn_fields session_in_confidence)

lemma scam_session_completed:
  "completed (scam_session settings env S p) = is_completed S (sessionId p)"
  by (simp add: scam_session_def record_scam_turn_fields session_in_completed)

lemma sim_ok_detection_in: "sim_ok (Some (repetition (detection_in settings env S p)))"
  by (simp add: detection_in_def sim_ok_detect_scam)


lemma exit_or_reply_exit:
  assumes "exit_fires settings s"
  shows "exit_or_reply settings env sid t s =
           (s\<lparr>completed := True\<rparr>, [send_final_callback settings env sid s],
            generate_exit_message (current_persona s))"
  using assms
  by (cases "should_exit settings s") (simp add: exit_or_reply_def exit_fires_def Let_def)

lemma exit_or_reply_reply:
  assumes "\<not> exit_fires settings s"
    and "generate_reply env (confidence s) t (current_persona s) = Inr (r, np)"
  shows "exit_or_reply settings env sid t s =
           (if Some np \<noteq> current_persona s
            then (s\<lparr>persona_history :=
                        persona_history s @
                          [\<lparr>switch_from = current_persona s, switch_to = np,
                            switch_turn = turns s, switch_confidence = confidence s\<rparr>],
                      current_persona := Some np\<rparr>, [], r)
            else (s, [], r))"
  using assms
  by (cases "should_exit settings s") (auto simp: exit_or_reply_def exit_fires_def Let_def)

lemma exit_or_reply_failed:
  assumes "\<not> exit_fires settings s"
    and "generate_reply env (confidence s) t (current_persona s) = Inl e"
  shows "exit_or_reply settings env sid t s = (s, [], neutral_fallback)"
  using assms
  by (cases "should_exit settings s")
     (auto simp: exit_or_reply_def exit_fires_def neutral_fallback_def Let_def)

lemma exit_or_reply_cases:
  obtains (exit) "exit_fires settings s"
      "exit_or_reply settings env sid t s =
         (s\<lparr>completed := True\<rparr>, [send_final_callback settings env sid s],
          generate_exit_message (current_persona s))"
  | (switch) r np where "\<not> exit_fires settings s"
      "generate_reply env (confidence s) t (current_persona s) = Inr (r, np)"
      "Some np \<noteq> current_persona s"
      "exit_or_reply settings env sid t s =
         (s\<lparr>persona_history :=
                 persona_history s @
                   [\<lparr>switch_from = current_persona s, switch_to = np,
                     switch_turn = turns s, switch_confidence = confidence s\<rparr>],
               current_persona := Some np\<rparr>, [], r)"
  | (same) r np where "\<not> exit_fires settings s"
      "generate_reply env (confidence s) t (current_persona s) = Inr (r, np)"
      "Some np = current_persona s"
      "exit_or_reply settings env sid t s = (s, [], r)"
  | (failed) e where "\<not> exit_fires settings s"
      "generate_reply env (confidence s) t (current_persona s) = Inl e"
      "exit_or_reply settings env sid t s = (s, [], neutral_fallback)"
proof (cases "exit_fires settings s")
  case True
  then show ?thesis using exit exit_or_reply_exit by blast
next
  case False
  show ?thesis
  proof (cases "generate_reply env (confidence s) t (current_persona s)")
    case (Inl e)
    then show ?thesis using failed False exit_or_reply_failed by blast
  next
    case (Inr rp)
    obtain r np where rp: "rp = (r, np)" by (cases rp)
    show ?thesis
    proof (cases "Some np = current_persona s")
      case True
      then show ?thesis
        using same [of r np] False Inr rp exit_or_reply_reply [of settings s env t r np sid]
        by simp
    next
      case ne: False
      then show ?thesis
        using switch [of r np] False Inr rp exit_or_reply_reply [of settings s env t r np sid]
        by simp
    qed
  qed
qed

lemma exit_or_reply_fields:
  "confidence (fst (exit_or_reply settings env sid t s)) = confidence s"
  "turns (fst (exit_or_reply settings env sid t s)) = turns s"
  "completed (fst (exit_or_reply settings env sid t s)) = (completed s \<or> exit_fires settings s)"
  "fst (snd (exit_or_reply settings env sid t s)) =
     (if exit_fires settings s then [send_final_callback settings env sid s] else [])"
proof -
  show "confidence (fst (exit_or_reply settings env sid t s)) = confidence s"
    by (cases rule: exit_or_reply_cases [of settings s env sid t]) simp_all
  show "turns (fst (exit_or_reply settings env sid t s)) = turns s"
    by (cases rule: exit_or_reply_cases [of settings s env sid t]) simp_all
  show "completed (fst (exit_or_reply settings env sid t s)) = (completed s \<or> exit_fires settings s)"
    by (cases rule: exit_or_reply_cases [of settings s env sid t]) simp_all
  show "fst (snd (exit_or_reply settings env sid t s)) =
     (if exit_fires settings s then [send_final_callback settings env sid s] else [])"
    by (cases rule: exit_or_reply_cases [of settings s env sid t]) simp_all
qed

lemma exit_fires_not_completed: "exit_fires settings s \<Longrightarrow> \<not> completed s"
  by (simp add: exit_fires_def)

lemma handle_message_sessions_after:
  "sessions_after (handle_message settings env S p) =
     S(sessionId p \<mapsto> session_out settings env S p)"
  by (cases "is_scam (detection_in settings env S p)")
     (simp_all add: handle_message_pass handle_message_scam session_out_def split: prod.splits)

lemma handle_message_callbacks_sent:
  "callbacks_sent (handle_message settings env S p) =
     (if is_scam (detection_in settings env S p) \<and>
         exit_fires settings (scam_session settings env S p)
      then [send_final_callback settings env (sessionId p) (scam_session settings env S p)]
      else [])"
proof (cases "is_scam (detection_in settings env S p)")
  case True
  then show ?thesis
    using exit_or_reply_fields(4) [of settings env "sessionId p" "msg_text (message p)"
        "scam_session settings env S p"]
    by (cases "exit_or_reply settings env (sessionId p) (msg_text (message p))
                  (scam_session settings env S p)")
       (simp add: handle_message_scam)
next
  case False
  then show ?thesis by (simp add: handle_message_pass)
qed

lemma session_out_confidence:
  "confidence (session_out settings env S p) =
     (if is_scam (detection_in settings env S p)
      then update_confidence (confidence_of S (sessionId p))
             (flags (detection_in settings env S p))
             (Some (repetition (detection_in settings env S p)))
             (Some (escalation (detection_in settings env S p)))
      else confidence_of S (sessionId p))"
  by (simp add: session_out_def exit_or_reply_fields scam_session_confidence session_in_confidence)

lemma session_out_completed:
  "completed (session_out settings env S p) =
     (is_completed S (sessionId p) \<or>
      (is_scam (detection_in settings env S p) \<and>
       exit_fires settings (scam_session settings env S p)))"
  by (simp add: session_out_def exit_or_reply_fields scam_session_completed session_in_completed)

lemma update_confidence_antimono:
  "decay fs rep esc \<le> decay fs' rep' esc' \<Longrightarrow>
   update_confidence old fs' rep' esc' \<le> update_confidence old fs rep esc"
  unfolding update_confidence_def by (intro round2_mono) simp

section \<open>Claims about the confidence tracker and the mode\<close>

text \<open>
  C8. The decay is monotone in the signals: putting one more flag into the flag list (at
  any place; the urgency flag, the threat flag, one more keyword flag or any other string),
  switching the repetition signal on (with a similarity that is not negative, as every
  ratio is) or switching the escalation signal on never lowers the decay, and so never
  raises the confidence returned.
\<close>

theorem decay_monotone_in_signals:
  "decay (fs1 @ fs2) rep esc \<le> decay (fs1 @ x # fs2) rep esc \<and>
   update_confidence old (fs1 @ x # fs2) rep esc \<le> update_confidence old (fs1 @ fs2) rep esc \<and>
   (repetition_off rep \<and> 0 \<le> similarity r \<longrightarrow>
      decay fs rep esc \<le> decay fs (Some r) esc \<and>
      update_confidence old fs (Some r) esc \<le> update_confidence old fs rep esc) \<and>
   (escalation_off esc \<longrightarrow>
      decay fs rep esc \<le> decay fs rep (Some e) \<and>
      update_confidence old fs rep (Some e) \<le> update_confidence old fs rep esc)"
  using decay_flag_mono [of fs1 fs2 rep esc x]
    decay_repetition_mono [of rep r fs esc] decay_escalation_mono [of esc fs rep e]
  by (auto intro: update_confidence_antimono)

theorem decay_monotone_in_signals_witness:
  "decay [''keyword:otp''] None None \<le> decay [''keyword:otp'', ''urgency''] None None \<and>
   update_confidence 1 [''keyword:otp'', ''urgency''] None None
     \<le> update_confidence 1 [''keyword:otp''] None None \<and>
   repetition_off None \<and>
   (0::real) \<le> similarity \<lparr>is_repetitive = True, similarity = 0.85, repeated_count = 2\<rparr> \<and>
   decay [''urgency''] None None
     \<le> decay [''urgency'']
          (Some \<lparr>is_repetitive = True, similarity = 0.85, repeated_count = 2\<rparr>) None \<and>
   update_confidence 1 [''urgency'']
       (Some \<lparr>is_repetitive = True, similarity = 0.85, repeated_count = 2\<rparr>) None
     \<le> update_confidence 1 [''urgency''] None None \<and>
   escalation_off None \<and>
   decay [''urgency''] None None
     \<le> decay [''urgency''] None
          (Some \<lparr>is_escalating = True, escalation_type = Some ''final_warning'',
                 urgency_count = 0, threat_count = 0\<rparr>) \<and>
   update_confidence 1 [''urgency''] None
       (Some \<lparr>is_escalating = True, escalation_type = Some ''final_warning'',
              urgency_count = 0, threat_count = 0\<rparr>)
     \<le> update_confidence 1 [''urgency''] None None"
proof -
  have h: "repetition_off None" "escalation_off None"
    "(0::real) \<le> similarity \<lparr>is_repetitive = True, similarity = 0.85, repeated_count = 2\<rparr>"
    by (simp_all add: repetition_off_def escalation_off_def)
  show ?thesis
    using h
      decay_monotone_in_signals [of "[''keyword:otp'']" "[]" None None "''urgency''" 1
        "\<lparr>is_repetitive = True, similarity = 0.85, repeated_count = 2\<rparr>" "[''urgency'']"
        "\<lparr>is_escalating = True, escalation_type = Some ''final_warning'',
          urgency_count = 0, threat_count = 0\<rparr>"]
    by simp
qed

text \<open>
  C10. \<open>decide_mode\<close> raises its \<open>ValueError\<close> exactly for a confidence outside \<open>[0,1]\<close>;
  inside, it returns \<open>EXIT\<close> below \<open>0.25\<close>, \<open>DEFLECTION\<close> from \<open>0.25\<close> to below \<open>0.5\<close>, and
  \<open>NORMAL\<close> from \<open>0.5\<close> to \<open>1\<close>.
\<close>

theorem decide_mode_by_range:
  "((\<exists>e. decide_mode c = Inl e) \<longleftrightarrow> (c < 0 \<or> 1 < c)) \<and>
   (c < 0 \<or> 1 < c \<longrightarrow>
      decide_mode c = Inl (ValueError ''confidence must be between 0 and 1'')) \<and>
   (0 \<le> c \<and> c < 0.25 \<longrightarrow> decide_mode c = Inr ''EXIT'') \<and>
   (0.25 \<le> c \<and> c < 0.5 \<longrightarrow> decide_mode c = Inr ''DEFLECTION'') \<and>
   (0.5 \<le> c \<and> c \<le> 1 \<longrightarrow> decide_mode c = Inr ''NORMAL'')"
  by (auto simp: decide_mode_def)

theorem decide_mode_by_range_witness:
  "decide_mode (-0.1) = Inl (ValueError ''confidence must be between 0 and 1'') \<and>
   decide_mode 1.5 = Inl (ValueError ''confidence must be between 0 and 1'') \<and>
   decide_mode 0 = Inr ''EXIT'' \<and>
   decide_mode 0.25 = Inr ''DEFLECTION'' \<and>
   decide_mode 0.5 = Inr ''NORMAL'' \<and>
   decide_mode 1 = Inr ''NORMAL''"
  using decide_mode_by_range [of "-0.1"] decide_mode_by_range [of "1.5"]
    decide_mode_by_range [of 0] decide_mode_by_range [of "0.25"]
    decide_mode_by_range [of "0.5"] decide_mode_by_range [of 1]
  by simp

section \<open>Claims about the persona selector, the exit policy and the merge\<close>

lemma select_loop_find:
  "map_option fst (select_loop ps c cur) = map_option snd (find (in_band c) ps)"
  by (induction ps c cur rule: select_loop.induct) (auto simp: in_band_def)

lemma select_persona_confused:
  "0.7 \<le> c \<Longrightarrow> c \<le> 1 \<Longrightarrow> persona_type (fst (select_persona c cur)) = CONFUSED_USER"
  by (simp add: select_persona_def PERSONAS_def)

lemma select_persona_nervous:
  "0.5 \<le> c \<Longrightarrow> c < 0.7 \<Longrightarrow> persona_type (fst (select_persona c cur)) = NERVOUS_ELDER"
  by (simp add: select_persona_def PERSONAS_def)

lemma select_persona_polite:
  "0.3 \<le> c \<Longrightarrow> c < 0.5 \<Longrightarrow> persona_type (fst (select_persona c cur)) = OVER_POLITE"
  by (simp add: select_persona_def PERSONAS_def)

lemma select_persona_savvy:
  "0 \<le> c \<Longrightarrow> c < 0.3 \<Longrightarrow> persona_type (fst (select_persona c cur)) = TECH_SAVVY"
  by (simp add: select_persona_def PERSONAS_def)

lemma select_loop_Some: "0 \<le> c \<Longrightarrow> c \<le> 1 \<Longrightarrow> select_loop PERSONAS c cur \<noteq> None"
  by (simp add: PERSONAS_def)

lemma select_persona_independent: "fst (select_persona c cur) = fst (select_persona c cur')"
proof -
  have "map_option fst (select_loop PERSONAS c cur) = map_option fst (select_loop PERSONAS c cur')"
    by (simp add: select_loop_find)
  then show ?thesis
    by (auto simp: select_persona_def split: option.splits)
qed

text \<open>
  C6. The persona selected depends on the confidence only (not on the current persona
  passed along). The loop returns the first entry of the table, in the order written,
  whose band contains the confidence: \<open>confused_user\<close> on \<open>[0.7,1]\<close>, \<open>nervous_elder\<close> on
  \<open>[0.5,0.7)\<close>, \<open>over_polite\<close> on \<open>[0.3,0.5)\<close>, \<open>tech_savvy\<close> on \<open>[0,0.3)\<close>, so that \<open>0.7\<close>,
  \<open>0.5\<close> and \<open>0.3\<close> go to the higher band; for a confidence in \<open>[0,1]\<close> the loop always
  returns, and the fallback after it is not reached.
\<close>

theorem select_persona_first_band:
  "fst (select_persona c cur) = fst (select_persona c cur') \<and>
   map_option fst (select_loop PERSONAS c cur) = map_option snd (find (in_band c) PERSONAS) \<and>
   (0.7 \<le> c \<and> c \<le> 1 \<longrightarrow> persona_type (fst (select_persona c cur)) = CONFUSED_USER) \<and>
   (0.5 \<le> c \<and> c < 0.7 \<longrightarrow> persona_type (fst (select_persona c cur)) = NERVOUS_ELDER) \<and>
   (0.3 \<le> c \<and> c < 0.5 \<longrightarrow> persona_type (fst (select_persona c cur)) = OVER_POLITE) \<and>
   (0 \<le> c \<and> c < 0.3 \<longrightarrow> persona_type (fst (select_persona c cur)) = TECH_SAVVY) \<and>
   (0 \<le> c \<and> c \<le> 1 \<longrightarrow>
      select_loop PERSONAS c cur \<noteq> None \<and>
      NoPersonaMatch c \<notin> set (snd (select_persona c cur)))"
proof -
  have "NoPersonaMatch c \<notin> set (snd (select_persona c cur))" if "0 \<le> c" "c \<le> 1"
    using that by (simp add: select_persona_def PERSONAS_def)
  then show ?thesis
    using select_persona_independent [of c cur cur'] select_loop_find [of PERSONAS c cur]
      select_persona_confused [of c cur] select_persona_nervous [of c cur]
      select_persona_polite [of c cur] select_persona_savvy [of c cur]
      select_loop_Some [of c cur]
    by blast
qed

theorem select_persona_first_band_witness:
  "persona_type (fst (select_persona 1 None)) = CONFUSED_USER \<and>
   persona_type (fst (select_persona 0.7 (Some ''nervous_elder''))) = CONFUSED_USER \<and>
   persona_type (fst (select_persona 0.5 None)) = NERVOUS_ELDER \<and>
   persona_type (fst (select_persona 0.3 None)) = OVER_POLITE \<and>
   persona_type (fst (select_persona 0.2 None)) = TECH_SAVVY \<and>
   persona_type (fst (select_persona 0 None)) = TECH_SAVVY \<and>
   select_loop PERSONAS 0.3 None \<noteq> None \<and>
   NoPersonaMatch 0.3 \<notin> set (snd (select_persona 0.3 None))"
  using select_persona_first_band [of 1 None None]
    select_persona_first_band [of "0.7" "Some ''nervous_elder''" "Some ''nervous_elder''"]
    select_persona_first_band [of "0.5" None None]
    select_persona_first_band [of "0.3" None None]
    select_persona_first_band [of "0.2" None None]
    select_persona_first_band [of 0 None None]
  by simp

text \<open>
  C3. \<open>should_exit\<close> reports the reason of the first of its three conditions that holds, in
  the order (1) confidence at most the exit threshold (\<open>0.4\<close> by default), (2) a payment
  handle, phone number or link collected and at least 3 turns, (3) at least 15 turns; when
  the first holds the reason is \<open>confidence_threshold\<close> whatever the other two are, and
  when none holds there is no exit.
\<close>

theorem should_exit_first_condition:
  "should_exit settings session = first_true (exit_conditions settings session) \<and>
   (confidence session \<le> exit_confidence_threshold settings \<longrightarrow>
      should_exit settings session = (True, Some ''confidence_threshold'')) \<and>
   (\<not> confidence session \<le> exit_confidence_threshold settings \<and>
    (upiIds (extracted session) \<noteq> [] \<or> phoneNumbers (extracted session) \<noteq> [] \<or>
     phishingLinks (extracted session) \<noteq> []) \<and> turns session \<ge> 3 \<longrightarrow>
      should_exit settings session = (True, Some ''intelligence_collected'')) \<and>
   (\<not> confidence session \<le> exit_confidence_threshold settings \<and>
    \<not> ((upiIds (extracted session) \<noteq> [] \<or> phoneNumbers (extracted session) \<noteq> [] \<or>
        phishingLinks (extracted session) \<noteq> []) \<and> turns session \<ge> 3) \<and>
    turns session \<ge> 15 \<longrightarrow>
      should_exit settings session = (True, Some ''max_turns_reached'')) \<and>
   (\<not> confidence session \<le> exit_confidence_threshold settings \<and>
    \<not> ((upiIds (extracted session) \<noteq> [] \<or> phoneNumbers (extracted session) \<noteq> [] \<or>
        phishingLinks (extracted session) \<noteq> []) \<and> turns session \<ge> 3) \<and>
    \<not> turns session \<ge> 15 \<longrightarrow>
      should_exit settings session = (False, None)) \<and>
   exit_confidence_threshold default_settings = 0.4"
  by (simp add: should_exit_def exit_conditions_def default_settings_def Let_def)

theorem should_exit_first_condition_witness:
  "confidence example_session \<le> exit_confidence_threshold default_settings \<and>
   upiIds (extracted example_session) \<noteq> [] \<and> turns example_session \<ge> 3 \<and>
   turns example_session \<ge> 15 \<and>
   should_exit default_settings example_session = (True, Some ''confidence_threshold'') \<and>
   first_true (exit_conditions default_settings example_session)
     = (True, Some ''confidence_threshold'')"
proof -
  have h: "confidence example_session \<le> exit_confidence_threshold default_settings"
    "upiIds (extracted example_session) \<noteq> []" "turns example_session \<ge> 3"
    "turns example_session \<ge> 15"
    by (simp_all add: example_session_def default_settings_def)
  note t = should_exit_first_condition [of default_settings example_session]
  from t have "should_exit default_settings example_session
      = first_true (exit_conditions default_settings example_session)"
    by (rule conjunct1)
  then have a: "first_true (exit_conditions default_settings example_session)
      = should_exit default_settings example_session"
    by (rule sym)
  from t h(1) have b: "should_exit default_settings example_session
      = (True, Some ''confidence_threshold'')"
    by blast
  show ?thesis
    using h a b by simp
qed



lemma merge_intelligence_apply:
  "merge_intelligence a b key =
     (if key \<in> set intelligence_keys then Some (list_set (get_list a key @ get_list b key)) else None)"
  by (simp add: merge_intelligence_def intelligence_keys_def)

lemma get_list_merge:
  "key \<in> set intelligence_keys \<Longrightarrow>
   get_list (merge_intelligence a b) key = list_set (get_list a key @ get_list b key)"
  by (simp add: merge_intelligence_apply get_list_def)

lemma dom_merge_intelligence: "dom (merge_intelligence r1 r2) = set intelligence_keys"
  by (simp add: dom_def merge_intelligence_apply)

lemma set_list_set [simp]: "set (list_set xs) = set xs"
  and distinct_list_set [simp]: "distinct (list_set xs)"
  by (simp_all add: list_set_def)

lemma merge_intelligence_fields:
  assumes "key \<in> set intelligence_keys"
  shows "set (get_list (merge_intelligence r1 r2) key) = set (get_list r1 key) \<union> set (get_list r2 key)"
    and "distinct (get_list (merge_intelligence r1 r2) key)"
    and "set (get_list (merge_intelligence r1 r1) key) = set (get_list r1 key)"
    and "set (get_list (merge_intelligence r1 r2) key) = set (get_list (merge_intelligence r2 r1) key)"
  using assms by (simp_all add: get_list_merge Un_commute)


text \<open>
  C5. \<open>merge_intelligence\<close> returns a dictionary with exactly the four fields, each
  holding, without duplicates, the union of the two lists merged: merging a dictionary
  with itself gives back its elements, and merging in either order gives the same
  elements.
\<close>

theorem merge_intelligence_union:
  "dom (merge_intelligence r1 r2) = set intelligence_keys \<and>
   (\<forall>key \<in> set intelligence_keys.
      set (get_list (merge_intelligence r1 r2) key) = set (get_list r1 key) \<union> set (get_list r2 key) \<and>
      distinct (get_list (merge_intelligence r1 r2) key) \<and>
      set (get_list (merge_intelligence r1 r1) key) = set (get_list r1 key) \<and>
      set (get_list (merge_intelligence r1 r2) key) = set (get_list (merge_intelligence r2 r1) key))"
  by (auto simp: dom_merge_intelligence merge_intelligence_fields(1,2,3))

theorem merge_intelligence_union_witness:
  "''upiIds'' \<in> set intelligence_keys \<and>
   set (get_list (merge_intelligence (example_intelligence [''a@ybl'', ''b@paytm''])
                    (example_intelligence [''b@paytm'', ''c@upi''])) ''upiIds'')
     = {''a@ybl'', ''b@paytm'', ''c@upi''} \<and>
   set (get_list (merge_intelligence (example_intelligence [''a@ybl'', ''b@paytm''])
                    (example_intelligence [''a@ybl'', ''b@paytm''])) ''upiIds'')
     = {''a@ybl'', ''b@paytm''} \<and>
   set (get_list (merge_intelligence (example_intelligence [''a@ybl'', ''b@paytm''])
                    (example_intelligence [''b@paytm'', ''c@upi''])) ''upiIds'')
     = set (get_list (merge_intelligence (example_intelligence [''b@paytm'', ''c@upi''])
                    (example_intelligence [''a@ybl'', ''b@paytm''])) ''upiIds'')"
proof -
  have k: "''upiIds'' \<in> set intelligence_keys"
    by (simp add: intelligence_keys_def)
  have g: "get_list (example_intelligence hs) ''upiIds'' = hs" for hs
    by (simp add: get_list_def example_intelligence_def)
  note t = merge_intelligence_union [of "example_intelligence [''a@ybl'', ''b@paytm'']"
        "example_intelligence [''b@paytm'', ''c@upi'']"]
  from t k have
    u: "set (get_list (merge_intelligence (example_intelligence [''a@ybl'', ''b@paytm''])
                    (example_intelligence [''b@paytm'', ''c@upi''])) ''upiIds'')
        = set (get_list (example_intelligence [''a@ybl'', ''b@paytm'']) ''upiIds'')
          \<union> set (get_list (example_intelligence [''b@paytm'', ''c@upi'']) ''upiIds'')"
    and i: "set (get_list (merge_intelligence (example_intelligence [''a@ybl'', ''b@paytm''])
                    (example_intelligence [''a@ybl'', ''b@paytm''])) ''upiIds'')
        = set (get_list (example_intelligence [''a@ybl'', ''b@paytm'']) ''upiIds'')"
    and c: "set (get_list (merge_intelligence (example_intelligence [''a@ybl'', ''b@paytm''])
                    (example_intelligence [''b@paytm'', ''c@upi''])) ''upiIds'')
     = set (get_list (merge_intelligence (example_intelligence [''b@paytm'', ''c@upi''])
                    (example_intelligence [''a@ybl'', ''b@paytm''])) ''upiIds'')"
    by blast+
  have u': "set (get_list (merge_intelligence (example_intelligence [''a@ybl'', ''b@paytm''])
                    (example_intelligence [''b@paytm'', ''c@upi''])) ''upiIds'')
     = {''a@ybl'', ''b@paytm'', ''c@upi''}"
    unfolding u g by auto
  have i': "set (get_list (merge_intelligence (example_intelligence [''a@ybl'', ''b@paytm''])
                    (example_intelligence [''a@ybl'', ''b@paytm''])) ''upiIds'')
     = {''a@ybl'', ''b@paytm''}"
    unfolding i g by simp
  show ?thesis
    using k u' i' c by (intro conjI)
qed

section \<open>The stored confidence\<close>

lemma decay_nonneg: "sim_ok rep \<Longrightarrow> 0 \<le> decay fs rep esc"
  using escalation_decay_nonneg [of esc]
  by (cases rep) (simp_all add: decay_parts flag_decay_def repetition_decay_def sim_ok_def)

lemma update_confidence_nonneg: "0 \<le> update_confidence old fs rep esc"
  unfolding update_confidence_def by (rule round2_nonneg) simp

lemma update_confidence_le_round2:
  assumes "sim_ok rep"
  shows "update_confidence old fs rep esc \<le> round2 (max 0 old)"
  unfolding update_confidence_def
  using decay_nonneg [OF assms, of fs esc] by (intro round2_mono) simp

lemma update_confidence_le_1:
  assumes "sim_ok rep" "old \<le> 1"
  shows "update_confidence old fs rep esc \<le> 1"
proof -
  have "round2 (max 0 old) \<le> 1"
    using assms(2) by (intro round2_le_1) simp
  with update_confidence_le_round2 [OF assms(1), of old fs esc] show ?thesis
    by linarith
qed

lemma update_confidence_le_old:
  assumes "sim_ok rep" "0 \<le> old" "two_decimals old"
  shows "update_confidence old fs rep esc \<le> old"
  using update_confidence_le_round2 [OF assms(1), of old fs esc] assms(2,3)
  by (simp add: round2_fixed max_def)

lemma two_decimals_update_confidence: "two_decimals (update_confidence old fs rep esc)"
  by (simp add: update_confidence_def)

lemma store_ok_empty: "store_ok Map.empty"
  by (simp add: store_ok_def)

lemma confidence_of_ok:
  assumes "store_ok S"
  shows "0 \<le> confidence_of S sid" "confidence_of S sid \<le> 1" "two_decimals (confidence_of S sid)"
  using assms by (auto simp: store_ok_def session_ok_def confidence_of_def split: option.splits)

lemma session_out_le:
  assumes "store_ok S"
  shows "confidence (session_out settings env S p) \<le> confidence_of S (sessionId p)"
  using confidence_of_ok [OF assms, of "sessionId p"]
    update_confidence_le_old [OF sim_ok_detection_in, of "confidence_of S (sessionId p)"]
  by (simp add: session_out_confidence)

lemma session_out_ok:
  assumes "store_ok S"
  shows "session_ok (session_out settings env S p)"
proof (cases "is_scam (detection_in settings env S p)")
  case True
  then show ?thesis
    using confidence_of_ok(2) [OF assms, of "sessionId p"]
    by (simp add: session_ok_def session_out_confidence update_confidence_nonneg
        update_confidence_le_1 [OF sim_ok_detection_in] two_decimals_update_confidence)
next
  case False
  then show ?thesis
    using confidence_of_ok [OF assms, of "sessionId p"]
    by (simp add: session_ok_def session_out_confidence)
qed

lemma store_ok_handle_message:
  assumes "store_ok S"
  shows "store_ok (sessions_after (handle_message settings env S p))"
  using assms session_out_ok [OF assms, of settings env p]
  by (auto simp: handle_message_sessions_after store_ok_def)

lemma confidence_of_handle_message:
  assumes "store_ok S"
  shows "confidence_of (sessions_after (handle_message settings env S p)) sid \<le> confidence_of S sid"
  using session_out_le [OF assms, of settings env p]
  by (simp add: handle_message_sessions_after confidence_of_def)

lemma run_Cons_fst:
  "fst (run settings S ((env, p) # rest)) =
     fst (run settings (sessions_after (handle_message settings env S p)) rest)"
  by (simp add: Let_def split: prod.splits)

lemma run_Cons_snd:
  "snd (run settings S ((env, p) # rest)) =
     callbacks_sent (handle_message settings env S p) @
     snd (run settings (sessions_after (handle_message settings env S p)) rest)"
  by (simp add: Let_def split: prod.splits)

lemma run_append_fst:
  "fst (run settings S (xs @ ys)) = fst (run settings (fst (run settings S xs)) ys)"
proof (induction xs arbitrary: S)
  case Nil
  then show ?case by simp
next
  case (Cons x xs)
  obtain env p where x: "x = (env, p)" by (cases x)
  show ?case
    unfolding x append_Cons run_Cons_fst by (rule Cons.IH)
qed

lemma store_ok_run: "store_ok S \<Longrightarrow> store_ok (fst (run settings S reqs))"
proof (induction reqs arbitrary: S)
  case Nil
  then show ?case by simp
next
  case (Cons x xs)
  obtain env p where x: "x = (env, p)" by (cases x)
  show ?case
    unfolding x run_Cons_fst
    by (rule Cons.IH) (rule store_ok_handle_message [OF Cons.prems])
qed

lemma confidence_of_run:
  "store_ok S \<Longrightarrow> confidence_of (fst (run settings S reqs)) sid \<le> confidence_of S sid"
proof (induction reqs arbitrary: S)
  case Nil
  then show ?case by simp
next
  case (Cons x xs)
  obtain env p where x: "x = (env, p)" by (cases x)
  have "confidence_of (fst (run settings (sessions_after (handle_message settings env S p)) xs)) sid
        \<le> confidence_of (sessions_after (handle_message settings env S p)) sid"
    by (rule Cons.IH) (rule store_ok_handle_message [OF Cons.prems])
  also have "\<dots> \<le> confidence_of S sid"
    by (rule confidence_of_handle_message [OF Cons.prems])
  finally show ?case
    unfolding x run_Cons_fst .
qed

text \<open>
  C1, as the code has it. For an old confidence in \<open>[0,1]\<close> and a repetition result whose
  similarity is not negative, the decay is not negative and \<open>update_confidence\<close> returns a
  value in \<open>[0,1]\<close> that is at most the old confidence rounded to two decimals; it is at
  most the old confidence itself when that is a two-decimal number. The similarity
  \<open>detect_repetition\<close> reports is never negative. A session's stored confidence starts at
  \<open>1.0\<close> and is a two-decimal number in \<open>[0,1]\<close> after any sequence of requests, and it never
  increases as further requests are handled.
\<close>

theorem confidence_never_increases:
  "(0 \<le> old \<and> old \<le> 1 \<and> sim_ok rep \<longrightarrow>
      0 \<le> decay fs rep esc \<and>
      0 \<le> update_confidence old fs rep esc \<and>
      update_confidence old fs rep esc \<le> 1 \<and>
      update_confidence old fs rep esc \<le> round2 old \<and>
      (two_decimals old \<longrightarrow> update_confidence old fs rep esc \<le> old)) \<and>
   sim_ok (Some (detect_repetition env msg hist threshold)) \<and>
   confidence_of Map.empty sid = 1 \<and>
   0 \<le> confidence_of (fst (run settings Map.empty reqs)) sid \<and>
   confidence_of (fst (run settings Map.empty reqs)) sid \<le> 1 \<and>
   two_decimals (confidence_of (fst (run settings Map.empty reqs)) sid) \<and>
   confidence_of (fst (run settings Map.empty (reqs @ later))) sid
     \<le> confidence_of (fst (run settings Map.empty reqs)) sid"
proof -
  have a: "0 \<le> decay fs rep esc \<and>
      0 \<le> update_confidence old fs rep esc \<and>
      update_confidence old fs rep esc \<le> 1 \<and>
      update_confidence old fs rep esc \<le> round2 old \<and>
      (two_decimals old \<longrightarrow> update_confidence old fs rep esc \<le> old)"
    if "0 \<le> old" "old \<le> 1" "sim_ok rep"
    using that decay_nonneg [of rep fs esc] update_confidence_nonneg [of old fs rep esc]
      update_confidence_le_1 [of rep old fs esc] update_confidence_le_round2 [of rep old fs esc]
      update_confidence_le_old [of rep old fs esc]
    by (simp add: max_def)
  have b: "sim_ok (Some (detect_repetition env msg hist threshold))"
    by (simp add: sim_ok_def detect_repetition_similarity_nonneg)
  have ok: "store_ok (fst (run settings Map.empty reqs))"
    by (rule store_ok_run [OF store_ok_empty])
  have c: "confidence_of (fst (run settings Map.empty (reqs @ later))) sid
     \<le> confidence_of (fst (run settings Map.empty reqs)) sid"
    unfolding run_append_fst by (rule confidence_of_run [OF ok])
  show ?thesis
    using a b c confidence_of_ok [OF ok, of sid] by (simp add: confidence_of_def)
qed

theorem confidence_never_increases_witness:
  "0 \<le> (1::real) \<and> (1::real) \<le> 1 \<and> sim_ok None \<and> two_decimals 1 \<and>
   update_confidence 1 [''urgency'', ''keyword:blocked''] None None = 0.9 \<and>
   update_confidence 1 [''urgency'', ''keyword:blocked''] None None \<le> 1 \<and>
   confidence_of (fst (run default_settings Map.empty
       [(example_env, example_request scam_text)])) ''s1'' = 0.55 \<and>
   confidence_of (fst (run default_settings Map.empty
       ([(example_env, example_request scam_text)] @
        [(example_env, example_request scam_text)]))) ''s1'' = 0 \<and>
   confidence_of (fst (run default_settings Map.empty
       ([(example_env, example_request scam_text)] @
        [(example_env, example_request scam_text)]))) ''s1''
     \<le> confidence_of (fst (run default_settings Map.empty
       [(example_env, example_request scam_text)])) ''s1''"
proof -
  have h: "0 \<le> (1::real)" "(1::real) \<le> 1" "sim_ok None" "two_decimals 1"
    by (simp_all add: sim_ok_def)
  have v: "update_confidence 1 [''urgency'', ''keyword:blocked''] None None = 0.9"
    by code_simp
  have r1: "confidence_of (fst (run default_settings Map.empty
       [(example_env, example_request scam_text)])) ''s1'' = 0.55"
    by code_simp
  have r2: "confidence_of (fst (run default_settings Map.empty
       ([(example_env, example_request scam_text)] @
        [(example_env, example_request scam_text)]))) ''s1'' = 0"
    by code_simp
  note t = confidence_never_increases [of 1 None "[''urgency'', ''keyword:blocked'']" None
      example_env "''x''" "[]" "0.7" "''s1''" default_settings
      "[(example_env, example_request scam_text)]" "[(example_env, example_request scam_text)]"]
  from t h have le1: "update_confidence 1 [''urgency'', ''keyword:blocked''] None None \<le> 1"
    by blast
  from t have le2: "confidence_of (fst (run default_settings Map.empty
       ([(example_env, example_request scam_text)] @
        [(example_env, example_request scam_text)]))) ''s1''
     \<le> confidence_of (fst (run default_settings Map.empty
       [(example_env, example_request scam_text)])) ''s1''"
    by blast
  show ?thesis
    using h v r1 r2 le1 le2 by (intro conjI)
qed

text \<open>
  C1 as stated, for every old confidence in \<open>[0,1]\<close>, fails where rounding goes up: with
  no flags the decay is \<open>0\<close>, and the old confidence \<open>0.006\<close> is rounded to \<open>0.01\<close>.
\<close>

theorem update_confidence_exceeds_old:
  "0 \<le> (0.006::real) \<and> (0.006::real) \<le> 1 \<and>
   update_confidence 0.006 [] None None = 0.01 \<and>
   \<not> update_confidence 0.006 [] None None \<le> 0.006"
  by code_simp

section \<open>The pass-through branch\<close>

lemma message_history_add_to_history:
  "message_history (add_to_history t s) = last_n 10 (message_history s @ [t])"
  by (simp add: add_to_history_def last_n_def Let_def)

lemma add_to_history_eq:
  "add_to_history t s = s\<lparr>message_history := last_n 10 (message_history s @ [t])\<rparr>"
  by (simp add: add_to_history_def last_n_def Let_def)

lemma length_last_n: "length (last_n n xs) \<le> n"
  by (simp add: last_n_def)

lemma load_session_Some:
  "S sid = Some s \<Longrightarrow> load_session env S sid = s\<lparr>last_activity := utcnow env 0\<rparr>"
  by (simp add: load_session_def)

lemma load_session_None:
  "S sid = None \<Longrightarrow>
   load_session env S sid =
     \<lparr>confidence = 1, turns = 0, completed = False,
      extracted = \<lparr>upiIds = [], phoneNumbers = [], phishingLinks = [], suspiciousKeywords = []\<rparr>,
      created_at = utcnow env 0, last_activity = utcnow env 2,
      current_persona = None, persona_history = [],
      behavior_patterns = Map.empty, message_history = []\<rparr>"
  by (simp add: load_session_def)

lemma new_MessageResponse_pass:
  "new_MessageResponse None 1 sid t False False =
     Inr \<lparr>status = ''success'', reply = None, resp_confidence = 1,
          resp_session_id = Some sid, resp_turns = Some t,
          agent_engaged = False, scam_detected = False\<rparr>"
  by (simp add: new_MessageResponse_def)

text \<open>
  C2. When the verdict on the message is not scam, nothing is sent, other sessions are
  untouched, and the session of the request is stored as it was loaded (or created, for a
  new session id) but for two fields: \<open>last_activity\<close> is the clock reading, and
  \<open>message_history\<close> is the last ten of the old history followed by the message. So
  confidence, turns, behaviour counters, current persona, persona history, extracted
  intelligence and the completed flag are unchanged. The response has no reply,
  \<open>agent_engaged\<close> and \<open>scam_detected\<close> false, the session's turn count, and the constant
  confidence \<open>1.0\<close>, whatever the stored confidence is.
\<close>

theorem pass_through_frame:
  "\<not> is_scam (detection_in settings env S p) \<longrightarrow>
     callbacks_sent (handle_message settings env S p) = [] \<and>
     response (handle_message settings env S p) =
       Inr \<lparr>status = ''success'', reply = None, resp_confidence = 1,
            resp_session_id = Some (sessionId p),
            resp_turns = Some (turns (load_session env S (sessionId p))),
            agent_engaged = False, scam_detected = False\<rparr> \<and>
     sessions_after (handle_message settings env S p) =
       S(sessionId p \<mapsto>
           (load_session env S (sessionId p))
             \<lparr>message_history :=
                last_n 10 (message_history (load_session env S (sessionId p))
                           @ [msg_text (message p)])\<rparr>) \<and>
     (\<forall>s. S (sessionId p) = Some s \<longrightarrow>
        load_session env S (sessionId p) = s\<lparr>last_activity := utcnow env 0\<rparr>) \<and>
     (S (sessionId p) = None \<longrightarrow>
        load_session env S (sessionId p) =
          \<lparr>confidence = 1, turns = 0, completed = False,
           extracted = \<lparr>upiIds = [], phoneNumbers = [], phishingLinks = [],
                        suspiciousKeywords = []\<rparr>,
           created_at = utcnow env 0, last_activity = utcnow env 2,
           current_persona = None, persona_history = [],
           behavior_patterns = Map.empty, message_history = []\<rparr>)"
proof
  assume a: "\<not> is_scam (detection_in settings env S p)"
  have s: "session_in env S p =
      (load_session env S (sessionId p))
        \<lparr>message_history :=
           last_n 10 (message_history (load_session env S (sessionId p)) @ [msg_text (message p)])\<rparr>"
    by (simp add: session_in_def add_to_history_eq)
  have t: "turns (session_in env S p) = turns (load_session env S (sessionId p))"
    by (simp add: session_in_def)
  show "callbacks_sent (handle_message settings env S p) = [] \<and>
     response (handle_message settings env S p) =
       Inr \<lparr>status = ''success'', reply = None, resp_confidence = 1,
            resp_session_id = Some (sessionId p),
            resp_turns = Some (turns (load_session env S (sessionId p))),
            agent_engaged = False, scam_detected = False\<rparr> \<and>
     sessions_after (handle_message settings env S p) =
       S(sessionId p \<mapsto>
           (load_session env S (sessionId p))
             \<lparr>message_history :=
                last_n 10 (message_history (load_session env S (sessionId p))
                           @ [msg_text (message p)])\<rparr>) \<and>
     (\<forall>s. S (sessionId p) = Some s \<longrightarrow>
        load_session env S (sessionId p) = s\<lparr>last_activity := utcnow env 0\<rparr>) \<and>
     (S (sessionId p) = None \<longrightarrow>
        load_session env S (sessionId p) =
          \<lparr>confidence = 1, turns = 0, completed = False,
           extracted = \<lparr>upiIds = [], phoneNumbers = [], phishingLinks = [],
                        suspiciousKeywords = []\<rparr>,
           created_at = utcnow env 0, last_activity = utcnow env 2,
           current_persona = None, persona_history = [],
           behavior_patterns = Map.empty, message_history = []\<rparr>)"
    unfolding handle_message_pass [OF a] t new_MessageResponse_pass
    using s load_session_Some [of S "sessionId p" _ env] load_session_None [of S "sessionId p" env]
    by simp
qed

theorem pass_through_frame_witness:
  "\<not> is_scam (detection_in default_settings example_env example_store (example_request greeting_text)) \<and>
   example_store ''s1'' = Some example_session \<and>
   confidence example_session = 0.3 \<and>
   callbacks_sent (handle_message default_settings example_env example_store
                     (example_request greeting_text)) = [] \<and>
   response (handle_message default_settings example_env example_store
               (example_request greeting_text)) =
     Inr \<lparr>status = ''success'', reply = None, resp_confidence = 1,
          resp_session_id = Some ''s1'', resp_turns = Some 20,
          agent_engaged = False, scam_detected = False\<rparr> \<and>
   sessions_after (handle_message default_settings example_env example_store
                     (example_request greeting_text)) ''s1'' =
     Some (example_session\<lparr>last_activity := 0, message_history := [greeting_text]\<rparr>)"
proof -
  have h: "\<not> is_scam (detection_in default_settings example_env example_store
                       (example_request greeting_text))"
    by code_simp
  have e: "example_store ''s1'' = Some example_session"
    by (simp add: example_store_def)
  have c: "confidence example_session = 0.3"
    by (simp add: example_session_def)
  have l: "load_session example_env example_store ''s1'' = example_session\<lparr>last_activity := 0\<rparr>"
    using load_session_Some [of example_store "''s1''" example_session example_env] e
    by (simp add: example_env_def)
  have m: "last_n 10 (message_history example_session @ [greeting_text]) = [greeting_text]"
    by (simp add: example_session_def last_n_def)
  have sid: "sessionId (example_request greeting_text) = ''s1''"
    "msg_text (message (example_request greeting_text)) = greeting_text"
    by (simp_all add: example_request_def)
  have tn: "turns example_session = 20"
    by (simp add: example_session_def)
  note t = pass_through_frame [of default_settings example_env example_store
      "example_request greeting_text"]
  from t h have
    t1: "callbacks_sent (handle_message default_settings example_env example_store
                     (example_request greeting_text)) = []"
    and t2: "response (handle_message default_settings example_env example_store
               (example_request greeting_text)) =
       Inr \<lparr>status = ''success'', reply = None, resp_confidence = 1,
            resp_session_id = Some (sessionId (example_request greeting_text)),
            resp_turns = Some (turns (load_session example_env example_store
                                        (sessionId (example_request greeting_text)))),
            agent_engaged = False, scam_detected = False\<rparr>"
    and t3: "sessions_after (handle_message default_settings example_env example_store
                     (example_request greeting_text)) =
       example_store(sessionId (example_request greeting_text) \<mapsto>
           (load_session example_env example_store (sessionId (example_request greeting_text)))
             \<lparr>message_history :=
                last_n 10 (message_history (load_session example_env example_store
                                               (sessionId (example_request greeting_text)))
                           @ [msg_text (message (example_request greeting_text))])\<rparr>)"
    by blast+
  have r2: "response (handle_message default_settings example_env example_store
               (example_request greeting_text)) =
     Inr \<lparr>status = ''success'', reply = None, resp_confidence = 1,
          resp_session_id = Some ''s1'', resp_turns = Some 20,
          agent_engaged = False, scam_detected = False\<rparr>"
    unfolding t2 sid l by (simp add: tn)
  have r3: "sessions_after (handle_message default_settings example_env example_store
                     (example_request greeting_text)) ''s1'' =
     Some (example_session\<lparr>last_activity := 0, message_history := [greeting_text]\<rparr>)"
    unfolding t3 sid l using m by simp
  show ?thesis
    using h e c t1 r2 r3 by (intro conjI)
qed

section \<open>The response\<close>

lemma handle_message_response_scam:
  assumes "is_scam (detection_in settings env S p)"
  shows "response (handle_message settings env S p) =
           new_MessageResponse (Some (reply_out settings env S p))
             (confidence (session_out settings env S p)) (sessionId p)
             (turns (session_out settings env S p)) True True"
  using assms
  by (cases "exit_or_reply settings env (sessionId p) (msg_text (message p))
                (scam_session settings env S p)")
     (simp add: handle_message_scam session_out_def reply_out_def)

lemma handle_message_response_pass:
  assumes "\<not> is_scam (detection_in settings env S p)"
  shows "response (handle_message settings env S p) =
           new_MessageResponse None 1 (sessionId p) (turns (session_in env S p)) False False"
  using assms by (simp add: handle_message_pass)

lemma new_MessageResponse_Inr:
  "new_MessageResponse r c sid t engaged scam = Inr resp \<Longrightarrow>
   reply resp = r \<and> resp_confidence resp = c \<and> resp_turns resp = Some t \<and>
   agent_engaged resp = engaged \<and> scam_detected resp = scam"
  by (auto simp: new_MessageResponse_def split: if_splits)

lemma new_MessageResponse_ok:
  "0 \<le> c \<Longrightarrow> c \<le> 1 \<Longrightarrow> \<exists>resp. new_MessageResponse r c sid t engaged scam = Inr resp"
  by (simp add: new_MessageResponse_def)

lemma response_reply_iff:
  assumes "response (handle_message settings env S p) = Inr resp"
  shows "reply resp = None \<longleftrightarrow> \<not> agent_engaged resp"
proof (cases "is_scam (detection_in settings env S p)")
  case True
  from assms show ?thesis
    unfolding handle_message_response_scam [OF True]
    by (auto dest: new_MessageResponse_Inr)
next
  case False
  from assms show ?thesis
    unfolding handle_message_response_pass [OF False]
    by (auto dest: new_MessageResponse_Inr)
qed

lemma response_exists:
  assumes "store_ok S"
  shows "\<exists>resp. response (handle_message settings env S p) = Inr resp"
proof (cases "is_scam (detection_in settings env S p)")
  case True
  have "session_ok (session_out settings env S p)"
    by (rule session_out_ok [OF assms])
  then show ?thesis
    unfolding handle_message_response_scam [OF True]
    by (intro new_MessageResponse_ok) (simp_all add: session_ok_def)
next
  case False
  then show ?thesis
    unfolding handle_message_response_pass [OF False]
    by (intro new_MessageResponse_ok) simp_all
qed

lemma reply_out_cases:
  "exit_fires settings (scam_session settings env S p) \<Longrightarrow>
     reply_out settings env S p =
       generate_exit_message (current_persona (scam_session settings env S p))"
  "\<not> exit_fires settings (scam_session settings env S p) \<Longrightarrow>
   generate_reply env (confidence (scam_session settings env S p)) (msg_text (message p))
     (current_persona (scam_session settings env S p)) = Inr (r, np) \<Longrightarrow>
     reply_out settings env S p = r"
  "\<not> exit_fires settings (scam_session settings env S p) \<Longrightarrow>
   generate_reply env (confidence (scam_session settings env S p)) (msg_text (message p))
     (current_persona (scam_session settings env S p)) = Inl e \<Longrightarrow>
     reply_out settings env S p = neutral_fallback"
  by (simp_all add: reply_out_def exit_or_reply_exit exit_or_reply_reply exit_or_reply_failed)

lemma session_out_turns:
  "turns (session_out settings env S p) =
     (if is_scam (detection_in settings env S p) then turns (session_in env S p) + 1
      else turns (session_in env S p))"
  by (simp add: session_out_def exit_or_reply_fields scam_session_def record_scam_turn_fields)

text \<open>
  C9. Every response has a null reply exactly when \<open>agent_engaged\<close> is false. Handling a
  request in a store reached by any sequence of requests (more generally, one whose
  confidences lie in \<open>[0,1]\<close>) always produces a response. On a non-scam verdict it has no
  reply and \<open>agent_engaged\<close> false; on a scam verdict it has a reply, \<open>agent_engaged\<close> and
  \<open>scam_detected\<close> true, and the confidence and turn count as just updated. The reply is the
  exit message when the exit fires, else the generated text, else, when generating failed,
  the neutral fallback sentence.
\<close>

theorem reply_null_iff_not_engaged:
  "(\<forall>resp. response (handle_message settings env S p) = Inr resp \<longrightarrow>
      (reply resp = None \<longleftrightarrow> \<not> agent_engaged resp)) \<and>
   (store_ok S \<longrightarrow> (\<exists>resp. response (handle_message settings env S p) = Inr resp)) \<and>
   (\<exists>resp. response (handle_message settings env (fst (run settings Map.empty reqs)) p) = Inr resp) \<and>
   (\<not> is_scam (detection_in settings env S p) \<longrightarrow>
      (\<exists>resp. response (handle_message settings env S p) = Inr resp \<and>
         reply resp = None \<and> \<not> agent_engaged resp \<and> \<not> scam_detected resp)) \<and>
   (is_scam (detection_in settings env S p) \<longrightarrow>
      response (handle_message settings env S p) =
        new_MessageResponse (Some (reply_out settings env S p))
          (confidence (session_out settings env S p)) (sessionId p)
          (turns (session_in env S p) + 1) True True) \<and>
   (is_scam (detection_in settings env S p) \<and> store_ok S \<longrightarrow>
      (\<exists>resp. response (handle_message settings env S p) = Inr resp \<and>
         reply resp = Some (reply_out settings env S p) \<and> agent_engaged resp \<and>
         scam_detected resp \<and>
         resp_confidence resp = confidence (session_out settings env S p) \<and>
         resp_turns resp = Some (turns (session_in env S p) + 1))) \<and>
   (exit_fires settings (scam_session settings env S p) \<longrightarrow>
      reply_out settings env S p =
        generate_exit_message (current_persona (scam_session settings env S p))) \<and>
   (\<forall>r np. \<not> exit_fires settings (scam_session settings env S p) \<and>
      generate_reply env (confidence (scam_session settings env S p)) (msg_text (message p))
        (current_persona (scam_session settings env S p)) = Inr (r, np) \<longrightarrow>
      reply_out settings env S p = r) \<and>
   (\<forall>e. \<not> exit_fires settings (scam_session settings env S p) \<and>
      generate_reply env (confidence (scam_session settings env S p)) (msg_text (message p))
        (current_persona (scam_session settings env S p)) = Inl e \<longrightarrow>
      reply_out settings env S p = neutral_fallback)"
proof -
  have c1: "\<forall>resp. response (handle_message settings env S p) = Inr resp \<longrightarrow>
      (reply resp = None \<longleftrightarrow> \<not> agent_engaged resp)"
    using response_reply_iff by blast
  have c2: "store_ok S \<longrightarrow> (\<exists>resp. response (handle_message settings env S p) = Inr resp)"
    using response_exists by blast
  have c3: "\<exists>resp. response (handle_message settings env (fst (run settings Map.empty reqs)) p) = Inr resp"
    by (rule response_exists [OF store_ok_run [OF store_ok_empty]])
  have c4: "\<exists>resp. response (handle_message settings env S p) = Inr resp \<and>
         reply resp = None \<and> \<not> agent_engaged resp \<and> \<not> scam_detected resp"
    if "\<not> is_scam (detection_in settings env S p)"
    unfolding handle_message_response_pass [OF that]
    by (simp add: new_MessageResponse_def)
  have c5: "response (handle_message settings env S p) =
        new_MessageResponse (Some (reply_out settings env S p))
          (confidence (session_out settings env S p)) (sessionId p)
          (turns (session_in env S p) + 1) True True"
    if "is_scam (detection_in settings env S p)"
    using that by (simp add: handle_message_response_scam session_out_turns)
  have c6: "\<exists>resp. response (handle_message settings env S p) = Inr resp \<and>
         reply resp = Some (reply_out settings env S p) \<and> agent_engaged resp \<and>
         scam_detected resp \<and>
         resp_confidence resp = confidence (session_out settings env S p) \<and>
         resp_turns resp = Some (turns (session_in env S p) + 1)"
    if "is_scam (detection_in settings env S p)" "store_ok S"
  proof -
    have "session_ok (session_out settings env S p)"
      by (rule session_out_ok [OF that(2)])
    then show ?thesis
      unfolding c5 [OF that(1)] by (simp add: new_MessageResponse_def session_ok_def)
  qed
  show ?thesis
    using c1 c2 c3 c4 c5 c6 reply_out_cases [of settings env S p] by blast
qed


theorem reply_null_iff_not_engaged_witness:
  "store_ok Map.empty \<and>
   \<not> is_scam (detection_in default_settings example_env Map.empty (example_request greeting_text)) \<and>
   (\<exists>resp. response (handle_message default_settings example_env Map.empty
                       (example_request greeting_text)) = Inr resp \<and>
      reply resp = None \<and> \<not> agent_engaged resp \<and> \<not> scam_detected resp) \<and>
   is_scam (detection_in default_settings example_env Map.empty (example_request scam_text)) \<and>
   (\<exists>resp. response (handle_message default_settings example_env Map.empty
                       (example_request scam_text)) = Inr resp \<and>
      reply resp = Some ''Which account do you mean?'' \<and> agent_engaged resp \<and>
      scam_detected resp \<and> resp_confidence resp = 0.55 \<and> resp_turns resp = Some 1) \<and>
   exit_fires default_settings
     (scam_session default_settings example_env engaged_store (example_request scam_text)) \<and>
   reply_out default_settings example_env engaged_store (example_request scam_text) =
     ''I'm feeling very nervous about this. I'll ask my son to help me at the bank.'' \<and>
   \<not> exit_fires default_settings
     (scam_session default_settings example_env broken_store (example_request scam_text)) \<and>
   generate_reply example_env
     (confidence (scam_session default_settings example_env broken_store (example_request scam_text)))
     (msg_text (message (example_request scam_text)))
     (current_persona (scam_session default_settings example_env broken_store
                         (example_request scam_text)))
     = Inl (ValueError ''confidence must be between 0 and 1'') \<and>
   reply_out default_settings example_env broken_store (example_request scam_text) =
     neutral_fallback"
proof -
  have h1: "\<not> is_scam (detection_in default_settings example_env Map.empty
                        (example_request greeting_text))"
    by code_simp
  have h2: "is_scam (detection_in default_settings example_env Map.empty
                      (example_request scam_text))"
    by code_simp
  have v2: "reply_out default_settings example_env Map.empty (example_request scam_text)
              = ''Which account do you mean?''"
    "confidence (session_out default_settings example_env Map.empty (example_request scam_text))
              = 0.55"
    "turns (session_in example_env Map.empty (example_request scam_text)) + 1 = 1"
    by code_simp+
  have h3: "exit_fires default_settings
     (scam_session default_settings example_env engaged_store (example_request scam_text))"
    by code_simp
  have v3: "generate_exit_message (current_persona
       (scam_session default_settings example_env engaged_store (example_request scam_text)))
     = ''I'm feeling very nervous about this. I'll ask my son to help me at the bank.''"
    by code_simp
  have h4: "\<not> exit_fires default_settings
     (scam_session default_settings example_env broken_store (example_request scam_text))"
    by code_simp
  have h5: "generate_reply example_env
     (confidence (scam_session default_settings example_env broken_store (example_request scam_text)))
     (msg_text (message (example_request scam_text)))
     (current_persona (scam_session default_settings example_env broken_store
                         (example_request scam_text)))
     = Inl (ValueError ''confidence must be between 0 and 1'')"
    by code_simp
  note ta = reply_null_iff_not_engaged [of default_settings example_env Map.empty
      "example_request greeting_text" "[]"]
  note tb = reply_null_iff_not_engaged [of default_settings example_env Map.empty
      "example_request scam_text" "[]"]
  note tc = reply_null_iff_not_engaged [of default_settings example_env engaged_store
      "example_request scam_text" "[]"]
  note td = reply_null_iff_not_engaged [of default_settings example_env broken_store
      "example_request scam_text" "[]"]
  from ta h1 have a: "\<exists>resp. response (handle_message default_settings example_env Map.empty
                       (example_request greeting_text)) = Inr resp \<and>
      reply resp = None \<and> \<not> agent_engaged resp \<and> \<not> scam_detected resp"
    by blast
  from tb h2 store_ok_empty have "\<exists>resp. response (handle_message default_settings example_env
        Map.empty (example_request scam_text)) = Inr resp \<and>
      reply resp = Some (reply_out default_settings example_env Map.empty
                           (example_request scam_text)) \<and>
      agent_engaged resp \<and> scam_detected resp \<and>
      resp_confidence resp = confidence (session_out default_settings example_env Map.empty
                                           (example_request scam_text)) \<and>
      resp_turns resp = Some (turns (session_in example_env Map.empty
                                       (example_request scam_text)) + 1)"
    by blast
  then have b: "\<exists>resp. response (handle_message default_settings example_env Map.empty
                       (example_request scam_text)) = Inr resp \<and>
      reply resp = Some ''Which account do you mean?'' \<and> agent_engaged resp \<and>
      scam_detected resp \<and> resp_confidence resp = 0.55 \<and> resp_turns resp = Some 1"
    unfolding v2 .
  from tc h3 have "reply_out default_settings example_env engaged_store (example_request scam_text)
      = generate_exit_message (current_persona
          (scam_session default_settings example_env engaged_store (example_request scam_text)))"
    by blast
  then have c: "reply_out default_settings example_env engaged_store (example_request scam_text) =
     ''I'm feeling very nervous about this. I'll ask my son to help me at the bank.''"
    unfolding v3 .
  from td h4 h5 have d: "reply_out default_settings example_env broken_store
      (example_request scam_text) = neutral_fallback"
    by blast
  show ?thesis
    using store_ok_empty h1 a h2 b h3 c h4 h5 d by (intro conjI)
qed

section \<open>The persona history\<close>

lemma generate_reply_Inr:
  assumes "generate_reply env c t cur = Inr (r, np)"
  shows "np = persona_value (persona_type (fst (select_persona c cur)))"
  using assms by (auto simp: generate_reply_def Let_def split: sum.splits)

lemma generate_reply_Inr_range:
  "0 \<le> c \<Longrightarrow> c \<le> 1 \<Longrightarrow> \<exists>r. generate_reply env c t cur = Inr r"
  by (auto simp: generate_reply_def decide_mode_def Let_def)

lemma scam_session_persona:
  "current_persona (scam_session settings env S p) = current_persona (load_session env S (sessionId p))"
  "persona_history (scam_session settings env S p) = persona_history (load_session env S (sessionId p))"
  "turns (scam_session settings env S p) = turns (load_session env S (sessionId p)) + 1"
  by (simp_all add: scam_session_def record_scam_turn_fields session_in_def)

lemma session_in_persona:
  "current_persona (session_in env S p) = current_persona (load_session env S (sessionId p))"
  "persona_history (session_in env S p) = persona_history (load_session env S (sessionId p))"
  by (simp_all add: session_in_def)

lemma exit_or_reply_persona:
  "persona_history (fst (exit_or_reply settings env sid t s)) =
     persona_history s @
       (if \<not> exit_fires settings s \<and>
           (case generate_reply env (confidence s) t (current_persona s) of
              Inl e \<Rightarrow> False | Inr r \<Rightarrow> True) \<and>
           Some (persona_value (persona_type (fst (select_persona (confidence s) (current_persona s)))))
             \<noteq> current_persona s
        then [\<lparr>switch_from = current_persona s,
               switch_to = persona_value (persona_type
                             (fst (select_persona (confidence s) (current_persona s)))),
               switch_turn = turns s, switch_confidence = confidence s\<rparr>]
        else [])"
  "current_persona (fst (exit_or_reply settings env sid t s)) =
       (if \<not> exit_fires settings s \<and>
           (case generate_reply env (confidence s) t (current_persona s) of
              Inl e \<Rightarrow> False | Inr r \<Rightarrow> True) \<and>
           Some (persona_value (persona_type (fst (select_persona (confidence s) (current_persona s)))))
             \<noteq> current_persona s
        then Some (persona_value (persona_type
                     (fst (select_persona (confidence s) (current_persona s)))))
        else current_persona s)"
proof -
  show "persona_history (fst (exit_or_reply settings env sid t s)) =
     persona_history s @
       (if \<not> exit_fires settings s \<and>
           (case generate_reply env (confidence s) t (current_persona s) of
              Inl e \<Rightarrow> False | Inr r \<Rightarrow> True) \<and>
           Some (persona_value (persona_type (fst (select_persona (confidence s) (current_persona s)))))
             \<noteq> current_persona s
        then [\<lparr>switch_from = current_persona s,
               switch_to = persona_value (persona_type
                             (fst (select_persona (confidence s) (current_persona s)))),
               switch_turn = turns s, switch_confidence = confidence s\<rparr>]
        else [])"
  proof (cases rule: exit_or_reply_cases [of settings s env sid t])
    case exit
    then show ?thesis by simp
  next
    case (switch r np)
    then show ?thesis using generate_reply_Inr [OF switch(2)] by simp
  next
    case (same r np)
    then show ?thesis using generate_reply_Inr [OF same(2)] by simp
  next
    case (failed e)
    then show ?thesis by simp
  qed
  show "current_persona (fst (exit_or_reply settings env sid t s)) =
       (if \<not> exit_fires settings s \<and>
           (case generate_reply env (confidence s) t (current_persona s) of
              Inl e \<Rightarrow> False | Inr r \<Rightarrow> True) \<and>
           Some (persona_value (persona_type (fst (select_persona (confidence s) (current_persona s)))))
             \<noteq> current_persona s
        then Some (persona_value (persona_type
                     (fst (select_persona (confidence s) (current_persona s)))))
        else current_persona s)"
  proof (cases rule: exit_or_reply_cases [of settings s env sid t])
    case exit
    then show ?thesis by simp
  next
    case (switch r np)
    then show ?thesis using generate_reply_Inr [OF switch(2)] by simp
  next
    case (same r np)
    then show ?thesis using generate_reply_Inr [OF same(2)] by simp
  next
    case (failed e)
    then show ?thesis by simp
  qed
qed

lemma session_out_persona_history:
  "persona_history (session_out settings env S p) =
     persona_history (load_session env S (sessionId p)) @
       (if persona_recorded settings env S p
        then [\<lparr>switch_from = current_persona (load_session env S (sessionId p)),
               switch_to = selected_persona settings env S p,
               switch_turn = turns (load_session env S (sessionId p)) + 1,
               switch_confidence = confidence (session_out settings env S p)\<rparr>]
        else [])"
proof (cases "is_scam (detection_in settings env S p)")
  case True
  then show ?thesis
    by (simp add: session_out_def exit_or_reply_persona(1) exit_or_reply_fields(1)
        persona_recorded_def reply_generated_def selected_persona_def scam_session_persona)
next
  case False
  then show ?thesis
    by (simp add: session_out_def persona_recorded_def session_in_persona)
qed

lemma session_out_current_persona:
  "current_persona (session_out settings env S p) =
     (if persona_recorded settings env S p then Some (selected_persona settings env S p)
      else current_persona (load_session env S (sessionId p)))"
proof (cases "is_scam (detection_in settings env S p)")
  case True
  then show ?thesis
    by (simp add: session_out_def exit_or_reply_persona(2)
        persona_recorded_def reply_generated_def selected_persona_def scam_session_persona)
next
  case False
  then show ?thesis
    by (simp add: session_out_def persona_recorded_def session_in_persona)
qed

lemma scam_session_in_range:
  assumes "store_ok S" "is_scam (detection_in settings env S p)"
  shows "0 \<le> confidence (scam_session settings env S p)"
    "confidence (scam_session settings env S p) \<le> 1"
  using confidence_of_ok(2) [OF assms(1), of "sessionId p"]
  by (simp_all add: scam_session_confidence update_confidence_nonneg
      update_confidence_le_1 [OF sim_ok_detection_in])

lemma reply_generated_ok:
  assumes "store_ok S" "is_scam (detection_in settings env S p)"
  shows "reply_generated settings env S p"
  using generate_reply_Inr_range [OF scam_session_in_range [OF assms], of env
      "msg_text (message p)" "current_persona (scam_session settings env S p)"]
  by (auto simp: reply_generated_def)

lemma select_loop_no_switch_line:
  "select_loop ps c None = Some (persona, lines) \<Longrightarrow> lines = []"
  by (induction ps c "None :: string option" rule: select_loop.induct)
     (auto simp: truthy_def split: if_splits)

lemma select_persona_no_switch_line:
  "PersonaSwitching a b x \<notin> set (snd (select_persona c None))"
  by (cases "select_loop PERSONAS c None")
     (auto simp: select_persona_def dest: select_loop_no_switch_line)


text \<open>
  C7, as the code has it. \<open>handle_message\<close> appends one record to \<open>persona_history\<close> and
  sets \<open>current_persona\<close> exactly when, on a scam verdict, the exit does not fire, the reply
  is generated, and the persona selected differs from the session's current persona; the
  record holds the old current persona, the selected one, the turn count and the
  confidence as just updated. A current persona of \<open>None\<close> differs from every persona: the
  first selection of a new session is recorded, with \<open>from\<close> being \<open>None\<close>. Only the log
  line of \<open>select_persona\<close> is left out when there is no prior persona.
\<close>

theorem persona_history_appended:
  "sessions_after (handle_message settings env S p) (sessionId p)
     = Some (session_out settings env S p) \<and>
   persona_history (session_out settings env S p) =
     persona_history (load_session env S (sessionId p)) @
       (if persona_recorded settings env S p
        then [\<lparr>switch_from = current_persona (load_session env S (sessionId p)),
               switch_to = selected_persona settings env S p,
               switch_turn = turns (load_session env S (sessionId p)) + 1,
               switch_confidence = confidence (session_out settings env S p)\<rparr>]
        else []) \<and>
   current_persona (session_out settings env S p) =
     (if persona_recorded settings env S p then Some (selected_persona settings env S p)
      else current_persona (load_session env S (sessionId p))) \<and>
   (store_ok S \<and> S (sessionId p) = None \<and> is_scam (detection_in settings env S p) \<and>
    \<not> exit_fires settings (scam_session settings env S p) \<longrightarrow>
      persona_history (session_out settings env S p) =
        [\<lparr>switch_from = None,
          switch_to = selected_persona settings env S p,
          switch_turn = 1,
          switch_confidence = confidence (session_out settings env S p)\<rparr>] \<and>
      current_persona (session_out settings env S p) = Some (selected_persona settings env S p)) \<and>
   (\<forall>a b x. PersonaSwitching a b x \<notin> set (snd (select_persona c None)))"
proof -
  have n: "persona_recorded settings env S p \<and> persona_history (load_session env S (sessionId p)) = []
      \<and> current_persona (load_session env S (sessionId p)) = None
      \<and> turns (load_session env S (sessionId p)) = 0"
    if "store_ok S" "S (sessionId p) = None" "is_scam (detection_in settings env S p)"
      "\<not> exit_fires settings (scam_session settings env S p)"
    using that reply_generated_ok [OF that(1,3)]
    by (simp add: persona_recorded_def load_session_None)
  show ?thesis
    using n select_persona_no_switch_line [of _ _ _ c]
    by (simp add: handle_message_sessions_after session_out_persona_history
        session_out_current_persona)
qed

text \<open>
  C7 as stated, with no record for a session without a prior persona, fails on the first
  scam message of a new session: the exit does not fire, \<open>confused_user\<close> is selected, and
  the history gets its first record, from \<open>None\<close>.
\<close>

theorem first_persona_is_recorded:
  "current_persona (load_session example_env Map.empty ''s1'') = None \<and>
   is_scam (detection_in default_settings example_env Map.empty
              (example_request first_scam_text)) \<and>
   callbacks_sent (handle_message default_settings example_env Map.empty
                     (example_request first_scam_text)) = [] \<and>
   map_option current_persona
     (sessions_after (handle_message default_settings example_env Map.empty
                        (example_request first_scam_text)) ''s1'')
     = Some (Some ''confused_user'') \<and>
   map_option persona_history
     (sessions_after (handle_message default_settings example_env Map.empty
                        (example_request first_scam_text)) ''s1'')
     = Some [\<lparr>switch_from = None, switch_to = ''confused_user'', switch_turn = 1,
              switch_confidence = 0.92\<rparr>]"
  by code_simp

theorem persona_history_appended_witness:
  "store_ok Map.empty \<and>
   Map.empty (sessionId (example_request first_scam_text)) = (None :: SessionData option) \<and>
   is_scam (detection_in default_settings example_env Map.empty
              (example_request first_scam_text)) \<and>
   \<not> exit_fires default_settings
      (scam_session default_settings example_env Map.empty (example_request first_scam_text)) \<and>
   persona_history (session_out default_settings example_env Map.empty
                      (example_request first_scam_text)) =
     [\<lparr>switch_from = None, switch_to = ''confused_user'', switch_turn = 1,
       switch_confidence = 0.92\<rparr>] \<and>
   current_persona (session_out default_settings example_env Map.empty
                      (example_request first_scam_text)) = Some ''confused_user''"
proof -
  have h: "Map.empty (sessionId (example_request first_scam_text)) = (None :: SessionData option)"
    "is_scam (detection_in default_settings example_env Map.empty
              (example_request first_scam_text))"
    "\<not> exit_fires default_settings
      (scam_session default_settings example_env Map.empty (example_request first_scam_text))"
    by code_simp+
  have v: "selected_persona default_settings example_env Map.empty
             (example_request first_scam_text) = ''confused_user''"
    "confidence (session_out default_settings example_env Map.empty
                   (example_request first_scam_text)) = 0.92"
    by code_simp+
  note t = persona_history_appended [of default_settings example_env Map.empty
      "example_request first_scam_text" 1]
  from t h store_ok_empty have
    "persona_history (session_out default_settings example_env Map.empty
                      (example_request first_scam_text)) =
        [\<lparr>switch_from = None,
          switch_to = selected_persona default_settings example_env Map.empty
                        (example_request first_scam_text),
          switch_turn = 1,
          switch_confidence = confidence (session_out default_settings example_env Map.empty
                                            (example_request first_scam_text))\<rparr>]"
    and "current_persona (session_out default_settings example_env Map.empty
                      (example_request first_scam_text))
      = Some (selected_persona default_settings example_env Map.empty
                (example_request first_scam_text))"
    by blast+
  then have r: "persona_history (session_out default_settings example_env Map.empty
                      (example_request first_scam_text)) =
     [\<lparr>switch_from = None, switch_to = ''confused_user'', switch_turn = 1,
       switch_confidence = 0.92\<rparr>]"
    "current_persona (session_out default_settings example_env Map.empty
                      (example_request first_scam_text)) = Some ''confused_user''"
    unfolding v by simp_all
  show ?thesis
    using store_ok_empty h r by (intro conjI)
qed

section \<open>Completion and the callback\<close>

lemma cb_sessionId_send_final_callback:
  "cb_sessionId (fst (send_final_callback settings env sid s)) = sid"
  by (simp add: send_final_callback_def Let_def)

lemma exit_fires_store:
  "exit_fires settings (scam_session settings env S p) \<Longrightarrow> \<not> is_completed S (sessionId p)"
  using scam_session_completed [of settings env S p] by (simp add: exit_fires_def)

lemma is_completed_after:
  "is_completed (sessions_after (handle_message settings env S p)) sid =
     (if sid = sessionId p
      then is_completed S sid \<or>
           (is_scam (detection_in settings env S p) \<and>
            exit_fires settings (scam_session settings env S p))
      else is_completed S sid)"
  by (simp add: handle_message_sessions_after is_completed_def session_out_completed
      split: option.splits)

lemma callbacks_for_sent:
  "callbacks_for sid (callbacks_sent (handle_message settings env S p)) =
     (if sid = sessionId p \<and> is_scam (detection_in settings env S p) \<and>
         exit_fires settings (scam_session settings env S p)
      then [send_final_callback settings env (sessionId p) (scam_session settings env S p)]
      else [])"
  by (simp add: handle_message_callbacks_sent callbacks_for_def cb_sessionId_send_final_callback)

lemma callbacks_step:
  "length (callbacks_for sid (callbacks_sent (handle_message settings env S p)))
     + callbacks_left (sessions_after (handle_message settings env S p)) sid
   \<le> callbacks_left S sid"
  using exit_fires_store [of settings env S p]
  by (auto simp: callbacks_for_sent is_completed_after callbacks_left_def)

lemma callbacks_for_append:
  "callbacks_for sid (xs @ ys) = callbacks_for sid xs @ callbacks_for sid ys"
  by (simp add: callbacks_for_def)

lemma callbacks_run:
  "length (callbacks_for sid (snd (run settings S reqs)))
     + callbacks_left (fst (run settings S reqs)) sid
   \<le> callbacks_left S sid"
proof (induction reqs arbitrary: S)
  case Nil
  then show ?case by (simp add: callbacks_for_def)
next
  case (Cons x xs)
  obtain env p where x: "x = (env, p)" by (cases x)
  show ?case
    unfolding x run_Cons_fst run_Cons_snd callbacks_for_append length_append
    using Cons.IH [of "sessions_after (handle_message settings env S p)"]
      callbacks_step [of sid settings env S p]
    by linarith
qed

lemma is_completed_run:
  "is_completed S sid \<Longrightarrow> is_completed (fst (run settings S reqs)) sid"
  using callbacks_run [of sid settings S reqs]
  by (simp add: callbacks_left_def split: if_splits)

lemma callbacks_left_empty: "callbacks_left Map.empty sid = 1"
  by (simp add: callbacks_left_def is_completed_def)

text \<open>
  C4. Once a session is completed it stays completed, through one request and through any
  sequence of requests. One request sends at most one callback, for its own session id, and
  sends it exactly when it turns the completed flag of that session from false to true.
  Over any sequence of requests starting with no sessions, at most one callback is sent per
  session id, and none for a session that is already completed. A scam-flagged message for
  a completed session fires no exit and sends nothing, but still adds one to the turns and
  applies the confidence update, and its reply comes from reply generation.
\<close>

theorem completed_once_callback_once:
  "(is_completed S sid \<longrightarrow>
      is_completed (sessions_after (handle_message settings env S p)) sid \<and>
      is_completed (fst (run settings S reqs)) sid \<and>
      callbacks_for sid (snd (run settings S reqs)) = []) \<and>
   length (callbacks_sent (handle_message settings env S p)) \<le> 1 \<and>
   callbacks_for (sessionId p) (callbacks_sent (handle_message settings env S p))
     = callbacks_sent (handle_message settings env S p) \<and>
   (callbacks_sent (handle_message settings env S p) \<noteq> [] \<longleftrightarrow>
      \<not> is_completed S (sessionId p) \<and>
      is_completed (sessions_after (handle_message settings env S p)) (sessionId p)) \<and>
   length (callbacks_for sid (snd (run settings Map.empty reqs))) \<le> 1 \<and>
   (is_completed S (sessionId p) \<and> is_scam (detection_in settings env S p) \<longrightarrow>
      \<not> exit_fires settings (scam_session settings env S p) \<and>
      callbacks_sent (handle_message settings env S p) = [] \<and>
      completed (session_out settings env S p) \<and>
      turns (session_out settings env S p) = turns (load_session env S (sessionId p)) + 1 \<and>
      confidence (session_out settings env S p) =
        update_confidence (confidence_of S (sessionId p))
          (flags (detection_in settings env S p))
          (Some (repetition (detection_in settings env S p)))
          (Some (escalation (detection_in settings env S p))) \<and>
      (\<forall>r np. generate_reply env (confidence (scam_session settings env S p))
                 (msg_text (message p)) (current_persona (scam_session settings env S p))
               = Inr (r, np) \<longrightarrow>
         reply_out settings env S p = r))"
proof -
  have a: "is_completed (sessions_after (handle_message settings env S p)) sid \<and>
      is_completed (fst (run settings S reqs)) sid \<and>
      callbacks_for sid (snd (run settings S reqs)) = []"
    if "is_completed S sid"
    using that callbacks_run [of sid settings S reqs] is_completed_run [OF that, of settings reqs]
    by (auto simp: is_completed_after callbacks_left_def)
  have b: "length (callbacks_sent (handle_message settings env S p)) \<le> 1"
    by (simp add: handle_message_callbacks_sent)
  have c: "callbacks_for (sessionId p) (callbacks_sent (handle_message settings env S p))
     = callbacks_sent (handle_message settings env S p)"
    by (simp add: handle_message_callbacks_sent callbacks_for_def
        cb_sessionId_send_final_callback)
  have d: "callbacks_sent (handle_message settings env S p) \<noteq> [] \<longleftrightarrow>
      \<not> is_completed S (sessionId p) \<and>
      is_completed (sessions_after (handle_message settings env S p)) (sessionId p)"
    using exit_fires_store [of settings env S p]
    by (auto simp: handle_message_callbacks_sent is_completed_after)
  have e: "length (callbacks_for sid (snd (run settings Map.empty reqs))) \<le> 1"
    using callbacks_run [of sid settings Map.empty reqs]
    by (simp add: callbacks_left_empty)
  have f: "\<not> exit_fires settings (scam_session settings env S p) \<and>
      callbacks_sent (handle_message settings env S p) = [] \<and>
      completed (session_out settings env S p) \<and>
      turns (session_out settings env S p) = turns (load_session env S (sessionId p)) + 1 \<and>
      confidence (session_out settings env S p) =
        update_confidence (confidence_of S (sessionId p))
          (flags (detection_in settings env S p))
          (Some (repetition (detection_in settings env S p)))
          (Some (escalation (detection_in settings env S p))) \<and>
      (\<forall>r np. generate_reply env (confidence (scam_session settings env S p))
                 (msg_text (message p)) (current_persona (scam_session settings env S p))
               = Inr (r, np) \<longrightarrow>
         reply_out settings env S p = r)"
    if "is_completed S (sessionId p)" "is_scam (detection_in settings env S p)"
  proof -
    have x: "\<not> exit_fires settings (scam_session settings env S p)"
      using exit_fires_store [of settings env S p] that(1) by blast
    show ?thesis
      using x that reply_out_cases(2) [OF x]
      by (simp add: handle_message_callbacks_sent session_out_completed session_out_turns
          session_out_confidence session_in_def)
  qed
  show ?thesis
    using a b c d e f by blast
qed


theorem completed_once_callback_once_witness:
  "is_completed completed_store ''s1'' \<and>
   is_scam (detection_in default_settings example_env completed_store (example_request scam_text)) \<and>
   is_completed (sessions_after (handle_message default_settings example_env completed_store
                                   (example_request scam_text))) ''s1'' \<and>
   callbacks_sent (handle_message default_settings example_env completed_store
                     (example_request scam_text)) = [] \<and>
   turns (session_out default_settings example_env completed_store (example_request scam_text)) = 3 \<and>
   length (callbacks_for ''s1'' (snd (run default_settings Map.empty
      [(example_env, example_request scam_text), (example_env, example_request scam_text),
       (example_env, example_request scam_text)]))) = 1 \<and>
   length (callbacks_for ''s1'' (snd (run default_settings Map.empty
      [(example_env, example_request scam_text), (example_env, example_request scam_text),
       (example_env, example_request scam_text)]))) \<le> 1 \<and>
   \<not> is_completed engaged_store ''s1'' \<and>
   is_completed (sessions_after (handle_message default_settings example_env engaged_store
                                   (example_request scam_text))) ''s1'' \<and>
   callbacks_sent (handle_message default_settings example_env engaged_store
                     (example_request scam_text)) \<noteq> []"
proof -
  have h: "is_completed completed_store ''s1''"
    "is_scam (detection_in default_settings example_env completed_store
                (example_request scam_text))"
    by code_simp+
  have s: "sessionId (example_request scam_text) = ''s1''"
    by (simp add: example_request_def)
  have v: "turns (load_session example_env completed_store ''s1'') + 1 = 3"
    by code_simp
  have n: "length (callbacks_for ''s1'' (snd (run default_settings Map.empty
      [(example_env, example_request scam_text), (example_env, example_request scam_text),
       (example_env, example_request scam_text)]))) = 1"
    by code_simp
  have g: "\<not> is_completed engaged_store ''s1''"
    "is_completed (sessions_after (handle_message default_settings example_env engaged_store
                                   (example_request scam_text))) ''s1''"
    by code_simp+
  note t = completed_once_callback_once [of completed_store "''s1''" default_settings
      example_env "example_request scam_text" "[(example_env, example_request scam_text),
        (example_env, example_request scam_text), (example_env, example_request scam_text)]"]
  note u = completed_once_callback_once [of engaged_store "''s1''" default_settings
      example_env "example_request scam_text" "[]"]
  from t h have a: "is_completed (sessions_after (handle_message default_settings example_env
      completed_store (example_request scam_text))) ''s1''"
    by blast
  from t h have b: "callbacks_sent (handle_message default_settings example_env completed_store
                     (example_request scam_text)) = []"
    unfolding s by blast
  from t h have "turns (session_out default_settings example_env completed_store
      (example_request scam_text)) =
      turns (load_session example_env completed_store (sessionId (example_request scam_text))) + 1"
    unfolding s by blast
  then have c: "turns (session_out default_settings example_env completed_store
      (example_request scam_text)) = 3"
    unfolding s v .
  from t have d: "length (callbacks_for ''s1'' (snd (run default_settings Map.empty
      [(example_env, example_request scam_text), (example_env, example_request scam_text),
       (example_env, example_request scam_text)]))) \<le> 1"
    by blast
  from u g have e: "callbacks_sent (handle_message default_settings example_env engaged_store
                     (example_request scam_text)) \<noteq> []"
    unfolding s by blast
  show ?thesis
    using h a b c n d g e by (intro conjI)
qed

end
